theory Spec2Isabelle
  imports Complex_Main "HOL-Library.Multiset" "HOL-Library.Word"
begin

section \<open>Arrays\<close>

text \<open>
  The program computes with JAX arrays. An array is its shape and its elements in
  row-major order, as \<^verbatim>\<open>ndarray\<close> stores them; it is well formed when the number of
  elements is the product of the shape. The element type is a parameter; the
  objective is computed over the real numbers, so its arithmetic is exact: the
  rounding and the overflow of binary32 are outside this model.

  The outcomes of an operation other than an array are the exceptions the program can
  meet, and \<open>NonFinite\<close>, which is not an exception: it stands for an array that has an
  element which is not a real number, an infinity or NaN, as a floating-point
  division by zero yields.
\<close>

datatype error =
  ShapeMismatch | AxisError | FileNotFoundError | NotADirectoryError | IsADirectoryError
  | CheckpointLoadError | DataSourceError | ZeroDivisionError | NonFinite

datatype 'a tensor = Tensor (shape: "nat list") (elems: "'a list")

definition wf_tensor :: "'a tensor \<Rightarrow> bool" where
  "wf_tensor t \<longleftrightarrow> length (elems t) = prod_list (shape t)"

text \<open>\<^verbatim>\<open>a.size\<close>: the number of elements, read off the shape.\<close>

definition tsize :: "'a tensor \<Rightarrow> nat" where
  "tsize t = prod_list (shape t)"

text \<open>The \<open>i\<close>-th block of \<open>k\<close> consecutive elements.\<close>

definition chunk :: "nat \<Rightarrow> nat \<Rightarrow> 'a list \<Rightarrow> 'a list" where
  "chunk k i xs = take k (drop (i * k) xs)"

text \<open>\<^verbatim>\<open>a[i]\<close> for each \<open>i\<close> along the leading axis.\<close>

definition rows :: "'a tensor \<Rightarrow> 'a tensor list" where
  "rows t =
     (case shape t of
        [] \<Rightarrow> []
      | n # s \<Rightarrow> map (\<lambda>i. Tensor s (chunk (prod_list s) i (elems t))) [0..<n])"

subsection \<open>Broadcasting\<close>

text \<open>
  NumPy's rule, which \<^verbatim>\<open>jax.numpy\<close> follows: shapes are aligned at their last axis;
  two extents are compatible when they are equal or one of them is 1; a missing
  leading axis counts as 1. \<open>broadcast_rev\<close> works on the reversed shapes.
\<close>

fun broadcast_rev :: "nat list \<Rightarrow> nat list \<Rightarrow> nat list option" where
  "broadcast_rev [] ys = Some ys"
| "broadcast_rev xs [] = Some xs"
| "broadcast_rev (x # xs) (y # ys) =
     (if x = y \<or> y = 1 then map_option ((#) x) (broadcast_rev xs ys)
      else if x = 1 then map_option ((#) y) (broadcast_rev xs ys)
      else None)"

definition broadcast_shapes :: "nat list \<Rightarrow> nat list \<Rightarrow> nat list option" where
  "broadcast_shapes s1 s2 = map_option rev (broadcast_rev (rev s1) (rev s2))"

text \<open>
  \<open>expand target source xs\<close> repeats the elements \<open>xs\<close> of an array of shape
  \<open>source\<close> (already padded with leading 1s to the rank of \<open>target\<close>) along every
  axis where \<open>source\<close> has extent 1 and \<open>target\<close> has not.
\<close>

fun expand :: "nat list \<Rightarrow> nat list \<Rightarrow> 'a list \<Rightarrow> 'a list" where
  "expand (n # ns) (m # ms) xs =
     (if m = n then concat (map (\<lambda>i. expand ns ms (chunk (prod_list ms) i xs)) [0..<n])
      else concat (replicate n (expand ns ms xs)))"
| "expand ns ms xs = xs"

definition broadcast_to :: "nat list \<Rightarrow> 'a tensor \<Rightarrow> 'a list" where
  "broadcast_to s t =
     expand s (replicate (length s - length (shape t)) 1 @ shape t) (elems t)"

subsection \<open>Array expressions\<close>

text \<open>
  A JAX expression either yields an array or raises. \<open>Raise\<close> is the exception; every
  operation passes on the exception of its first failing operand, as evaluation from
  left to right does.
\<close>

datatype 'a tval = Raise error | Val "'a tensor"

text \<open>A Python number used as an operand is an array of shape \<open>()\<close>.\<close>

definition scalar :: "'a \<Rightarrow> 'a tval" where
  "scalar x = Val (Tensor [] [x])"

fun tmap :: "('a \<Rightarrow> 'b) \<Rightarrow> 'a tval \<Rightarrow> 'b tval" where
  "tmap f (Raise e) = Raise e"
| "tmap f (Val t) = Val (Tensor (shape t) (map f (elems t)))"

fun elementwise2 :: "('a \<Rightarrow> 'a \<Rightarrow> 'a) \<Rightarrow> 'a tval \<Rightarrow> 'a tval \<Rightarrow> 'a tval" where
  "elementwise2 f (Raise e) b = Raise e"
| "elementwise2 f (Val a) (Raise e) = Raise e"
| "elementwise2 f (Val a) (Val b) =
     (case broadcast_shapes (shape a) (shape b) of
        None \<Rightarrow> Raise ShapeMismatch
      | Some s \<Rightarrow> Val (Tensor s (map2 f (broadcast_to s a) (broadcast_to s b))))"

instantiation tval :: (plus) plus
begin
definition plus_tval :: "'a tval \<Rightarrow> 'a tval \<Rightarrow> 'a tval" where
  "plus_tval a b = elementwise2 (+) a b"
instance ..
end

instantiation tval :: (minus) minus
begin
definition minus_tval :: "'a tval \<Rightarrow> 'a tval \<Rightarrow> 'a tval" where
  "minus_tval a b = elementwise2 (-) a b"
instance ..
end

instantiation tval :: (times) times
begin
definition times_tval :: "'a tval \<Rightarrow> 'a tval \<Rightarrow> 'a tval" where
  "times_tval a b = elementwise2 (*) a b"
instance ..
end

text \<open>
  \<^verbatim>\<open>a / b\<close>. A floating-point division by zero raises nothing: the quotient is an
  infinity or NaN. After broadcasting, a zero among the divisors makes the outcome
  \<open>NonFinite\<close>; otherwise the quotients are those of the real numbers.
\<close>

fun true_divide :: "'a::{zero,divide} tval \<Rightarrow> 'a tval \<Rightarrow> 'a tval" where
  "true_divide (Raise e) b = Raise e"
| "true_divide (Val a) (Raise e) = Raise e"
| "true_divide (Val a) (Val b) =
     (case broadcast_shapes (shape a) (shape b) of
        None \<Rightarrow> Raise ShapeMismatch
      | Some s \<Rightarrow>
          if 0 \<in> set (broadcast_to s b) then Raise NonFinite
          else Val (Tensor s (map2 (div) (broadcast_to s a) (broadcast_to s b))))"

instantiation tval :: (division_ring) divide
begin
definition divide_tval :: "'a tval \<Rightarrow> 'a tval \<Rightarrow> 'a tval" where
  "divide_tval a b = true_divide a b"
instance ..
end

instantiation tval :: (division_ring) inverse
begin
definition inverse_tval :: "'a tval \<Rightarrow> 'a tval" where
  "inverse_tval a = tmap inverse a"
instance ..
end

instantiation tval :: (uminus) uminus
begin
definition uminus_tval :: "'a tval \<Rightarrow> 'a tval" where
  "uminus_tval a = tmap uminus a"
instance ..
end

text \<open>\<^verbatim>\<open>x ** 2\<close>, elementwise.\<close>

definition tpow :: "'a::power tval \<Rightarrow> nat \<Rightarrow> 'a tval" where
  "tpow a n = tmap (\<lambda>x. x ^ n) a"

text \<open>\<^verbatim>\<open>jnp.sum(a)\<close>: the sum of all elements, an array of shape \<open>()\<close>.\<close>

fun jnp_sum :: "'a::monoid_add tval \<Rightarrow> 'a tval" where
  "jnp_sum (Raise e) = Raise e"
| "jnp_sum (Val t) = scalar (sum_list (elems t))"

subsection \<open>Concatenation\<close>

text \<open>
  \<^verbatim>\<open>jnp.concatenate([a, b], axis)\<close>. The axis is checked against the rank of the first
  array, then the ranks must agree, then every extent but the one at \<open>axis\<close>. The
  result joins, for each index before \<open>axis\<close>, the block of \<open>a\<close> and the block of \<open>b\<close>.
\<close>

definition jnp_concatenate :: "'a tensor \<Rightarrow> 'a tensor \<Rightarrow> nat \<Rightarrow> 'a tval" where
  "jnp_concatenate a b axis =
     (let sa = shape a; sb = shape b in
      if length sa \<le> axis then Raise AxisError
      else if length sb \<noteq> length sa then Raise ShapeMismatch
      else if take axis sb \<noteq> take axis sa \<or> drop (Suc axis) sb \<noteq> drop (Suc axis) sa
        then Raise ShapeMismatch
      else Val (Tensor (take axis sa @ [sa ! axis + sb ! axis] @ drop (Suc axis) sa)
             (concat (map (\<lambda>i. chunk (prod_list (drop axis sa)) i (elems a)
                               @ chunk (prod_list (drop axis sb)) i (elems b))
                        [0..<prod_list (take axis sa)]))))"

section \<open>Gaussian primitives\<close>

text \<open>
  A Gaussian is the pair (mean, log-variance) of two arrays.
  \<^verbatim>\<open>
  def concat_probabilties(p_a, p_b):
      mean = jnp.concatenate([p_a[0],p_b[0]], axis=1)
      log_var = jnp.concatenate([p_a[1],p_b[1]], axis=1)
      return (mean, log_var)
  \<close>
  The first concatenation that raises ends the call.
\<close>

definition concat_probabilties ::
  "'a tensor \<times> 'a tensor \<Rightarrow> 'a tensor \<times> 'a tensor \<Rightarrow> error + 'a tensor \<times> 'a tensor" where
  "concat_probabilties p_a p_b =
     (case jnp_concatenate (fst p_a) (fst p_b) 1 of
        Raise e \<Rightarrow> Inl e
      | Val mean \<Rightarrow>
          (case jnp_concatenate (snd p_a) (snd p_b) 1 of
             Raise e \<Rightarrow> Inl e
           | Val log_var \<Rightarrow> Inr (mean, log_var)))"

subsection \<open>Elementwise functions and batching\<close>

definition jnp_exp :: "real tval \<Rightarrow> real tval" where
  "jnp_exp = tmap exp"

definition jnp_log :: "real tval \<Rightarrow> real tval" where
  "jnp_log = tmap ln"

definition jnp_sqrt :: "real tval \<Rightarrow> real tval" where
  "jnp_sqrt = tmap sqrt"

definition jnp_zeros :: "nat list \<Rightarrow> 'a::zero tval" where
  "jnp_zeros s = Val (Tensor s (replicate (prod_list s) 0))"

text \<open>
  \<^verbatim>\<open>jax.random.normal(key, shape=a.shape)\<close>. The generator is a library function of the
  key and the shape; it is the parameter \<open>nrm\<close>, whose value \<open>nrm key s i\<close> is the
  \<open>i\<close>-th element of the draw. Reading \<^verbatim>\<open>a.shape\<close> off a raised operand raises.
\<close>

fun jax_random_normal :: "('k \<Rightarrow> nat list \<Rightarrow> nat \<Rightarrow> 'a) \<Rightarrow> 'k \<Rightarrow> 'a tval \<Rightarrow> 'a tval" where
  "jax_random_normal nrm key (Raise e) = Raise e"
| "jax_random_normal nrm key (Val a) =
     Val (Tensor (shape a) (map (nrm key (shape a)) [0..<prod_list (shape a)]))"

text \<open>
  \<^verbatim>\<open>jax.vmap(f)(a)\<close> for a function that returns a pair of arrays: \<open>f\<close> is applied to
  every \<^verbatim>\<open>a[i]\<close> and the results are stacked along a new leading axis, component by
  component. An operand of rank 0 has no axis to map over. JAX traces \<open>f\<close> once, on an
  abstract example that has the shape of \<^verbatim>\<open>a[i]\<close>, and the shapes of the results of the
  trace are the trailing shapes of the outputs, also for an empty batch. The shapes of
  the results of a traced function depend on the shapes of its arguments only, so the
  trace is the application of \<open>f\<close> to the all-zero example; \<open>stack\<close> raises if a result
  had another shape.
\<close>

definition stack :: "nat list \<Rightarrow> 'a tensor list \<Rightarrow> 'a tval" where
  "stack s ts =
     (if list_all (\<lambda>u. shape u = s) ts
      then Val (Tensor (length ts # s) (concat (map elems ts)))
      else Raise ShapeMismatch)"

fun jax_vmap :: "('a::zero tensor \<Rightarrow> 'b tensor \<times> 'b tensor) \<Rightarrow> 'a tval \<Rightarrow> 'b tval \<times> 'b tval" where
  "jax_vmap f (Raise e) = (Raise e, Raise e)"
| "jax_vmap f (Val a) =
     (if shape a = [] then (Raise AxisError, Raise AxisError)
      else let traced = f (Tensor (tl (shape a)) (replicate (prod_list (tl (shape a))) 0))
           in (stack (shape (fst traced)) (map (\<lambda>r. fst (f r)) (rows a)),
               stack (shape (snd traced)) (map (\<lambda>r. snd (f r)) (rows a))))"

text \<open>
  \<^verbatim>\<open>
  def gaussian_kl_divergence(p, q):
      p_mean, p_log_var = p
      q_mean, q_log_var = q
      kl_div = (q_log_var-p_log_var + (jnp.exp(p_log_var)+(p_mean-q_mean)**2)/jnp.exp(q_log_var)-1)/2
      return kl_div

  def gaussian_log_probabilty(p, x):
      p_mean, p_log_var = p
      log_p = (-1/2)*((x-p_mean)**2/jnp.exp(p_log_var))-p_log_var/2-jnp.log(jnp.sqrt(2*jnp.pi))
      return log_p

  def sample_gaussian(p, key):
      p_mean, p_log_var = p
      samples = jax.random.normal(key,shape=p_mean.shape)*jnp.exp(p_log_var/2)+p_mean
      return samples
  \<close>
  Over the real numbers: the arithmetic is exact.
\<close>

definition gaussian_kl_divergence :: "real tval \<times> real tval \<Rightarrow> real tval \<times> real tval \<Rightarrow> real tval" where
  "gaussian_kl_divergence p q =
     (case p of (p_mean, p_log_var) \<Rightarrow>
      case q of (q_mean, q_log_var) \<Rightarrow>
        (q_log_var - p_log_var
           + (jnp_exp p_log_var + tpow (p_mean - q_mean) 2) / jnp_exp q_log_var
           - scalar 1) / scalar 2)"

definition gaussian_log_probabilty :: "real tval \<times> real tval \<Rightarrow> real tval \<Rightarrow> real tval" where
  "gaussian_log_probabilty p x =
     (case p of (p_mean, p_log_var) \<Rightarrow>
        scalar (- 1 / 2) * (tpow (x - p_mean) 2 / jnp_exp p_log_var)
          - p_log_var / scalar 2
          - jnp_log (jnp_sqrt (scalar (2 * pi))))"

definition sample_gaussian ::
  "('k \<Rightarrow> nat list \<Rightarrow> nat \<Rightarrow> real) \<Rightarrow> real tval \<times> real tval \<Rightarrow> 'k \<Rightarrow> real tval" where
  "sample_gaussian nrm p key =
     (case p of (p_mean, p_log_var) \<Rightarrow>
        jax_random_normal nrm key p_mean * jnp_exp (p_log_var / scalar 2) + p_mean)"

section \<open>The variational objective\<close>

text \<open>
  \<^verbatim>\<open>
  @jax.jit
  def vae_loss(vae, data, key):
      encoder, decoder = vae
      q = jax.vmap(encoder)(data)
      z = sample_gaussian(q, key)
      z_prior = (0,0)
      kl = gaussian_kl_divergence(q, z_prior)
      p = jax.vmap(decoder)(z)
      log_p = gaussian_log_probabilty(p, data)
      loss = sum(map(jnp.sum,[-log_p, kl]))/(data.size)
      return loss
  \<close>
  The encoder and the decoder are functions from an array to a pair of arrays.
  Python's \<^verbatim>\<open>sum\<close> starts from the integer 0 and adds the items from the left.
  \<^verbatim>\<open>data.size\<close> is 0 for an empty batch and for frames without elements; the division
  then yields NaN or an infinity, the outcome \<open>NonFinite\<close>.
\<close>

type_synonym net = "real tensor \<Rightarrow> real tensor \<times> real tensor"

definition vae_loss ::
  "('k \<Rightarrow> nat list \<Rightarrow> nat \<Rightarrow> real) \<Rightarrow> net \<times> net \<Rightarrow> real tensor \<Rightarrow> 'k \<Rightarrow> real tval" where
  "vae_loss nrm vae data key =
     (case vae of (encoder, decoder) \<Rightarrow>
        let q = jax_vmap encoder (Val data);
            z = sample_gaussian nrm q key;
            z_prior = (scalar 0, scalar 0);
            kl = gaussian_kl_divergence q z_prior;
            p = jax_vmap decoder z;
            log_p = gaussian_log_probabilty p (Val data);
            loss = foldl (+) (scalar 0) (map jnp_sum [- log_p, kl]) / scalar (real (tsize data))
        in loss)"

section \<open>Sampling\<close>

text \<open>
  \<^verbatim>\<open>
  def sample_vae(n_latent, n_samples, vae, key):
      z_key, x_key = jax.random.split(key)
      decoder = vae[1]
      p_z = (jnp.zeros((n_samples,n_latent)),)*2
      z = sample_gaussian(p_z, z_key)
      p_x = jax.vmap(decoder)(z)
      x = sample_gaussian(p_x, x_key)
      return x
  \<close>
  \<^verbatim>\<open>jax.random.split\<close> is the parameter \<open>split\<close>.
\<close>

definition sample_vae ::
  "('k \<Rightarrow> nat list \<Rightarrow> nat \<Rightarrow> real) \<Rightarrow> ('k \<Rightarrow> 'k \<times> 'k) \<Rightarrow> nat \<Rightarrow> nat \<Rightarrow> net \<times> net \<Rightarrow> 'k \<Rightarrow> real tval" where
  "sample_vae nrm split n_latent n_samples vae key =
     (case split key of (z_key, x_key) \<Rightarrow>
        let decoder = snd vae;
            p_z = (jnp_zeros [n_samples, n_latent], jnp_zeros [n_samples, n_latent]);
            z = sample_gaussian nrm p_z z_key;
            p_x = jax_vmap decoder z;
            x = sample_gaussian nrm p_x x_key
        in x)"

section \<open>The training loop\<close>

subsection \<open>What the loop calls\<close>

text \<open>
  The training state is the tuple \<^verbatim>\<open>(vae, opt_state, key, i)\<close>; \<^verbatim>\<open>state[2]\<close> is the key and
  \<^verbatim>\<open>state[3]\<close> the iteration counter, a Python integer. The model \<^verbatim>\<open>vae\<close> is a pair of
  modules of type \<open>'p\<close>; gradients and updates have the type of the model.
\<close>

type_synonym ('p, 'o, 'k) train_state = "('p \<times> 'p) \<times> 'o \<times> 'k \<times> int"

text \<open>An optax gradient transformation: \<^verbatim>\<open>init(params)\<close> and \<^verbatim>\<open>update(grads, state)\<close>.\<close>

record ('g, 'o) transformation =
  t_init :: "'g \<Rightarrow> 'o"
  t_update :: "'g \<Rightarrow> 'o \<Rightarrow> 'g \<times> 'o"

text \<open>
  \<^verbatim>\<open>optax.chain(t1, t2, ...)\<close>: the state is the tuple of the stages' states; an update
  passes the gradient through the stages in the order they are listed.
\<close>

fun chain_update :: "('g, 'o) transformation list \<Rightarrow> 'g \<Rightarrow> 'o list \<Rightarrow> 'g \<times> 'o list" where
  "chain_update (t # ts) g (s # ss) =
     (case t_update t g s of (g', s') \<Rightarrow>
      case chain_update ts g' ss of (g'', ss') \<Rightarrow> (g'', s' # ss'))"
| "chain_update ts g ss = (g, [])"

definition optax_chain :: "('g, 'o) transformation list \<Rightarrow> ('g, 'o list) transformation" where
  "optax_chain ts = \<lparr> t_init = (\<lambda>params. map (\<lambda>t. t_init t params) ts), t_update = chain_update ts \<rparr>"

text \<open>
  The functions of JAX, optax and the standard library that the loop calls, and the
  classes of the repository's \<^verbatim>\<open>models.frame_vae\<close> and \<^verbatim>\<open>frame_extractor\<close> modules, whose
  code is not part of the sources: they are parameters, gathered in one record.
  \<open>module_call\<close> applies a module to an array; \<open>frame_extractor\<close> gives, for the video
  directory, the batch size and a key, the batch that the \<open>i\<close>-th \<^verbatim>\<open>next(fe)\<close> returns, or
  \<open>None\<close> where it raises; \<open>format_loss\<close> is the text of \<^verbatim>\<open>f"{loss}"\<close>, also of a loss
  that is not finite.
\<close>

record ('p, 'o, 'k) library =
  jax_random_PRNGKey :: "int \<Rightarrow> 'k"
  jax_random_split :: "'k \<Rightarrow> 'k \<times> 'k"
  jax_random_normal_fn :: "'k \<Rightarrow> nat list \<Rightarrow> nat \<Rightarrow> real"
  jax_grad :: "('p \<times> 'p \<Rightarrow> real tensor \<Rightarrow> 'k \<Rightarrow> real tval) \<Rightarrow> 'p \<times> 'p \<Rightarrow> real tensor \<Rightarrow> 'k \<Rightarrow> 'p \<times> 'p"
  apply_updates :: "'p \<times> 'p \<Rightarrow> 'p \<times> 'p \<Rightarrow> 'p \<times> 'p"
  optax_adam :: "real \<Rightarrow> ('p \<times> 'p, 'o) transformation"
  optax_zero_nans :: "('p \<times> 'p, 'o) transformation"
  optax_clip_by_global_norm :: "real \<Rightarrow> ('p \<times> 'p, 'o) transformation"
  VAEEncoder :: "nat \<Rightarrow> nat \<Rightarrow> nat \<Rightarrow> 'k \<Rightarrow> 'p"
  VAEDecoder :: "nat \<Rightarrow> nat \<Rightarrow> nat \<Rightarrow> 'k \<Rightarrow> 'p"
  module_call :: "'p \<Rightarrow> net"
  frame_extractor :: "string \<Rightarrow> nat \<Rightarrow> 'k \<Rightarrow> nat \<Rightarrow> real tensor option"
  format_loss :: "real tval \<Rightarrow> string"

text \<open>The configuration dictionary, with the keys the loop reads.\<close>

record config =
  seed :: int
  n_latent :: nat
  target_size :: nat
  size_multiplier :: nat
  ckpt_dir :: string
  lr :: real
  ckpt_interval :: int
  data_dir :: string
  bs :: nat
  clip_norm :: real
  metrics_path :: string

text \<open>
  What the loop reads and writes outside its own variables: the directories and the
  text files of the file system, the persisted checkpoints (newest first), and the
  console.
\<close>

type_synonym ckpt_id = "string \<times> int \<times> string"

record ('p, 'o, 'k) world =
  dirs :: "string set"
  files :: "string \<rightharpoonup> string"
  checkpoints :: "(ckpt_id \<times> ('p, 'o, 'k) train_state) list"
  console :: "string list"

subsection \<open>The helpers of \<^verbatim>\<open>utils\<close>\<close>

text \<open>
  Modelled from the spec: \<^verbatim>\<open>utils.ckpt_path\<close>, whose code is not part of the sources.
  "Path/identifier construction takes a directory, an iteration number, and a model
  tag string": the identifier is the triple itself.
\<close>

definition ckpt_path :: "string \<Rightarrow> int \<Rightarrow> string \<Rightarrow> ckpt_id" where
  "ckpt_path dir iteration tag = (dir, iteration, tag)"

text \<open>
  Modelled from the spec: \<^verbatim>\<open>utils.save_checkpoint\<close>, whose code is not part of the sources.
  "\<^verbatim>\<open>save(state, path)\<close> writes a TrainingState snapshot": the snapshot replaces what was
  stored under the same identifier.
\<close>

definition save_checkpoint ::
  "('p, 'o, 'k) train_state \<Rightarrow> ckpt_id \<Rightarrow> ('p, 'o, 'k) world \<Rightarrow> ('p, 'o, 'k) world" where
  "save_checkpoint state path w =
     w\<lparr>checkpoints := (path, state) # filter (\<lambda>c. fst c \<noteq> path) (checkpoints w)\<rparr>"

text \<open>
  Modelled from the spec: \<^verbatim>\<open>utils.load_checkpoint\<close>, whose code is not part of the sources.
  "\<^verbatim>\<open>load(path_or_id)\<close> returns a previously saved TrainingState"; the command line gives
  the "checkpoint iteration to load state from", so the identifier is the iteration
  number of the tag, and a missing snapshot is fatal.
\<close>

definition load_checkpoint ::
  "('p, 'o, 'k) world \<Rightarrow> int \<Rightarrow> error + ('p, 'o, 'k) train_state" where
  "load_checkpoint w n =
     (case filter (\<lambda>c. fst (snd (fst c)) = n) (checkpoints w) of
        [] \<Rightarrow> Inl CheckpointLoadError
      | c # _ \<Rightarrow> Inr (snd c))"

text \<open>
  Modelled from the spec: \<^verbatim>\<open>utils.update_state\<close>, whose code is not part of the sources.
  It "splits RngState into two independent streams: one consumed by this step's
  stochastic sampling, one retained in the new TrainingState", "computes the loss and
  its gradient", "applies the Optimizer's gradient transform chain to the raw gradient,
  producing a parameter update and a new OptimizerState", "applies the update to Model
  parameters", "increments Iteration by 1", and returns the loss with the new state. A
  loss function that raises ends the call. A loss that is not finite raises nothing:
  it is returned like any other loss.
\<close>

fun exception_of :: "'a tval \<Rightarrow> error option" where
  "exception_of (Raise e) = (if e = NonFinite then None else Some e)"
| "exception_of (Val t) = None"

definition update_state ::
  "('p, 'o, 'k) library \<Rightarrow> ('p, 'o list, 'k) train_state \<Rightarrow> real tensor
     \<Rightarrow> ('p \<times> 'p, 'o list) transformation \<Rightarrow> ('p \<times> 'p \<Rightarrow> real tensor \<Rightarrow> 'k \<Rightarrow> real tval)
     \<Rightarrow> error + real tval \<times> ('p, 'o list, 'k) train_state" where
  "update_state lib state data optimizer loss_fn =
     (case state of (model, opt_state, key, i) \<Rightarrow>
      case jax_random_split lib key of (new_key, subkey) \<Rightarrow>
      let loss = loss_fn model data subkey in
      case exception_of loss of
        Some e \<Rightarrow> Inl e
      | None \<Rightarrow>
          let grads = jax_grad lib loss_fn model data subkey in
          case t_update optimizer grads opt_state of (updates, new_opt_state) \<Rightarrow>
          let new_model = apply_updates lib model updates
          in Inr (loss, (new_model, new_opt_state, new_key, i + 1)))"

subsection \<open>Files\<close>

text \<open>
  \<^verbatim>\<open>os.path.dirname\<close>: everything up to the last slash, without trailing slashes unless
  it consists of slashes only.
\<close>

definition dirname :: "string \<Rightarrow> string" where
  "dirname p =
     (let head = rev (dropWhile (\<lambda>c. c \<noteq> CHR ''/'') (rev p))
      in if filter (\<lambda>c. c \<noteq> CHR ''/'') head \<noteq> []
         then rev (dropWhile (\<lambda>c. c = CHR ''/'') (rev head))
         else head)"

definition path_exists :: "('p, 'o, 'k) world \<Rightarrow> string \<Rightarrow> bool" where
  "path_exists w p \<longleftrightarrow> p \<in> dirs w \<or> files w p \<noteq> None"

text \<open>
  The directories above a path: for every slash of the path, what stands before it,
  without trailing slashes, unless that is empty or the root. Paths are names: the
  model does not resolve \<^verbatim>\<open>.\<close>, \<^verbatim>\<open>..\<close> or links.
\<close>

definition ancestors :: "string \<Rightarrow> string list" where
  "ancestors p =
     filter (\<lambda>q. q \<noteq> [])
       (map (\<lambda>i. rev (dropWhile (\<lambda>c. c = CHR ''/'') (rev (take i p))))
          (filter (\<lambda>i. p ! i = CHR ''/'') [0..<length p]))"

text \<open>
  \<^verbatim>\<open>os.makedirs\<close>, called only for a path that does not exist: the directory is created,
  and every directory above it that is missing. The empty path is refused, and so is
  a path that has a file above it.
\<close>

definition makedirs :: "string \<Rightarrow> ('p, 'o, 'k) world \<Rightarrow> error + ('p, 'o, 'k) world" where
  "makedirs p w =
     (if p = [] then Inl FileNotFoundError
      else if list_ex (\<lambda>q. files w q \<noteq> None) (ancestors p) then Inl NotADirectoryError
      else Inr (w\<lparr>dirs := dirs w \<union> set (ancestors p) \<union> {p}\<rparr>))"

text \<open>
  \<^verbatim>\<open>open(path, "w")\<close>: the file is created, or truncated to length zero if it exists.
  The empty path names nothing; a path that ends in a slash, or that is a directory,
  names a directory, which cannot be opened for writing; the directory part must
  exist and be a directory (the empty directory part is the working directory).
\<close>

definition open_w :: "string \<Rightarrow> ('p, 'o, 'k) world \<Rightarrow> error + ('p, 'o, 'k) world" where
  "open_w p w =
     (if p = [] then Inl FileNotFoundError
      else if files w (dirname p) \<noteq> None then Inl NotADirectoryError
      else if p \<in> dirs w \<or> last p = CHR ''/'' then Inl IsADirectoryError
      else if dirname p \<noteq> [] \<and> dirname p \<notin> dirs w then Inl FileNotFoundError
      else Inr (w\<lparr>files := (files w)(p \<mapsto> [])\<rparr>))"

text \<open>\<^verbatim>\<open>f.flush()\<close>: the buffered text goes to the end of the file.\<close>

definition flush :: "string \<Rightarrow> string \<Rightarrow> ('p, 'o, 'k) world \<Rightarrow> ('p, 'o, 'k) world" where
  "flush p buf w =
     w\<lparr>files := (files w)(p \<mapsto> (case files w p of None \<Rightarrow> buf | Some c \<Rightarrow> c @ buf))\<rparr>"

subsection \<open>\<^verbatim>\<open>make_vae\<close> and \<^verbatim>\<open>train\<close>\<close>

text \<open>
  \<^verbatim>\<open>
  def make_vae(n_latent, input_size, size_multipier, key):
      enc_key, dec_key = jax.random.split(key)
      e = frame_vae.VAEEncoder(n_latent, input_size, size_multipier, enc_key)
      d = frame_vae.VAEDecoder(n_latent, input_size, size_multipier, dec_key)
      vae = e,d
      return vae
  \<close>
\<close>

definition make_vae :: "('p, 'o, 'k) library \<Rightarrow> nat \<Rightarrow> nat \<Rightarrow> nat \<Rightarrow> 'k \<Rightarrow> 'p \<times> 'p" where
  "make_vae lib n_lat input_size size_multipier key =
     (case jax_random_split lib key of (enc_key, dec_key) \<Rightarrow>
        let e = VAEEncoder lib n_lat input_size size_multipier enc_key;
            d = VAEDecoder lib n_lat input_size size_multipier dec_key
        in (e, d))"

text \<open>
  \<^verbatim>\<open>
      adam_optimizer = optax.adam(lr)
      optimizer = optax.chain(adam_optimizer, optax.zero_nans(), optax.clip_by_global_norm(clip_norm))
  \<close>
\<close>

definition train_optimizer :: "('p, 'o, 'k) library \<Rightarrow> config \<Rightarrow> ('p \<times> 'p, 'o list) transformation" where
  "train_optimizer lib cfg =
     (let adam_optimizer = optax_adam lib (lr cfg)
      in optax_chain [adam_optimizer, optax_zero_nans lib, optax_clip_by_global_norm lib (clip_norm cfg)])"

text \<open>The loss function the loop passes on: \<open>vae_loss\<close>, with the modules applied.\<close>

definition train_loss :: "('p, 'o, 'k) library \<Rightarrow> 'p \<times> 'p \<Rightarrow> real tensor \<Rightarrow> 'k \<Rightarrow> real tval" where
  "train_loss lib vae data key =
     vae_loss (jax_random_normal_fn lib) (module_call lib (fst vae), module_call lib (snd vae)) data key"

text \<open>
  \<^verbatim>\<open>
      if args.checkpoint is None:
          key = jax.random.PRNGKey(cfg["seed"])
          init_key, state_key = jax.random.split(key)
          vae = make_vae(cfg["lvm"]["n_latent"], cfg["transcode"]["target_size"],cfg["vae"]["size_multiplier"], init_key)
          opt_state = optimizer.init(vae)
          i = 0
          state = vae, opt_state, state_key, i
      else:
          checkpoint_path = args.checkpoint
          state = utils.load_checkpoint(checkpoint_path)

      dir_name = os.path.dirname(metrics_path)
      if not os.path.exists(dir_name):
          os.makedirs(dir_name)

      with open(metrics_path,"w") as f:
  \<close>
  \<open>train_start\<close> is the run up to the opened log: the state to train from and the file
  system after \<^verbatim>\<open>open\<close>. An error carries the world it leaves behind.
\<close>

definition initial_state ::
  "('p, 'o, 'k) library \<Rightarrow> int option \<Rightarrow> config \<Rightarrow> ('p, 'o list, 'k) world
     \<Rightarrow> error + ('p, 'o list, 'k) train_state" where
  "initial_state lib args_checkpoint cfg w =
     (case args_checkpoint of
        None \<Rightarrow>
          let key = jax_random_PRNGKey lib (seed cfg) in
          case jax_random_split lib key of (init_key, state_key) \<Rightarrow>
          let vae = make_vae lib (n_latent cfg) (target_size cfg) (size_multiplier cfg) init_key;
              opt_state = t_init (train_optimizer lib cfg) vae;
              i = 0
          in Inr (vae, opt_state, state_key, i)
      | Some checkpoint_path \<Rightarrow> load_checkpoint w checkpoint_path)"

definition train_start ::
  "('p, 'o, 'k) library \<Rightarrow> int option \<Rightarrow> config \<Rightarrow> ('p, 'o list, 'k) world
     \<Rightarrow> error \<times> ('p, 'o list, 'k) world + ('p, 'o list, 'k) world \<times> ('p, 'o list, 'k) train_state" where
  "train_start lib args_checkpoint cfg w =
     (case initial_state lib args_checkpoint cfg w of
        Inl e \<Rightarrow> Inl (e, w)
      | Inr state \<Rightarrow>
          let dir_name = dirname (metrics_path cfg) in
          case (if \<not> path_exists w dir_name then makedirs dir_name w else Inr w) of
            Inl e \<Rightarrow> Inl (e, w)
          | Inr w1 \<Rightarrow>
              (case open_w (metrics_path cfg) w1 of
                 Inl e \<Rightarrow> Inl (e, w1)
               | Inr w2 \<Rightarrow> Inr (w2, state)))"

text \<open>
  \<^verbatim>\<open>
          with frame_extractor.FrameExtractor(video_paths, batch_size, state[2]) as fe:
              for _ in utils.tqdm_inf():
                  data = jnp.array(next(fe),dtype=jnp.float32)
                  loss, state = utils.update_state(state, data, optimizer, vae_loss)
                  f.write(f"{loss}\n")
                  f.flush()
                  iteration = state[3]
                  if (iteration % ckpt_interval) == (ckpt_interval - 1):
                      ckpt_path = utils.ckpt_path(ckpt_dir, iteration+1, "vae")
                      utils.save_checkpoint(state, ckpt_path)
                      print("---------CHECKPOINT SAVED----------")
  \<close>
  One pass through the body. The loop variables are the world, the number of batches
  drawn so far and the training state; \<open>fe\<close> is the opened frame extractor. The write
  buffer of \<^verbatim>\<open>f\<close> is empty between passes, since every write is followed by a flush.
  Python's \<^verbatim>\<open>%\<close> raises on a zero divisor and otherwise takes the sign of the divisor, as
  \<open>mod\<close> on \<open>int\<close> does.
\<close>

definition train_body ::
  "('p, 'o, 'k) library \<Rightarrow> config \<Rightarrow> (nat \<Rightarrow> real tensor option)
     \<Rightarrow> ('p, 'o list, 'k) world \<times> nat \<times> ('p, 'o list, 'k) train_state
     \<Rightarrow> error \<times> ('p, 'o list, 'k) world + ('p, 'o list, 'k) world \<times> nat \<times> ('p, 'o list, 'k) train_state" where
  "train_body lib cfg fe s =
     (case s of (w, pos, state) \<Rightarrow>
      case fe pos of
        None \<Rightarrow> Inl (DataSourceError, w)
      | Some data \<Rightarrow>
          (case update_state lib state data (train_optimizer lib cfg) (train_loss lib) of
             Inl e \<Rightarrow> Inl (e, w)
           | Inr (loss, state') \<Rightarrow>
               let buf = format_loss lib loss @ [CHR 0x0A];
                   w1 = flush (metrics_path cfg) buf w;
                   iteration = snd (snd (snd state'))
               in if ckpt_interval cfg = 0 then Inl (ZeroDivisionError, w1)
                  else if iteration mod ckpt_interval cfg = ckpt_interval cfg - 1
                  then let path = ckpt_path (ckpt_dir cfg) (iteration + 1) ''vae'';
                           w2 = save_checkpoint state' path w1;
                           w3 = w2\<lparr>console := console w2 @ [''---------CHECKPOINT SAVED----------'']\<rparr>
                       in Inr (w3, Suc pos, state')
                  else Inr (w1, Suc pos, state')))"

text \<open>
  \<^verbatim>\<open>utils.tqdm_inf()\<close> never ends, so the loop has no exit of its own.
  \<open>train_loop n\<close> is the first \<open>n\<close> passes: the loop variables once \<open>n\<close> passes have
  completed, or the error that ended the run before.
\<close>

fun train_loop ::
  "('p, 'o, 'k) library \<Rightarrow> config \<Rightarrow> (nat \<Rightarrow> real tensor option) \<Rightarrow> nat
     \<Rightarrow> ('p, 'o list, 'k) world \<times> nat \<times> ('p, 'o list, 'k) train_state
     \<Rightarrow> error \<times> ('p, 'o list, 'k) world + ('p, 'o list, 'k) world \<times> nat \<times> ('p, 'o list, 'k) train_state" where
  "train_loop lib cfg fe 0 s = Inr s"
| "train_loop lib cfg fe (Suc n) s =
     (case train_body lib cfg fe s of
        Inl e \<Rightarrow> Inl e
      | Inr s' \<Rightarrow> train_loop lib cfg fe n s')"

definition train ::
  "('p, 'o, 'k) library \<Rightarrow> int option \<Rightarrow> config \<Rightarrow> ('p, 'o list, 'k) world \<Rightarrow> nat
     \<Rightarrow> error \<times> ('p, 'o list, 'k) world + ('p, 'o list, 'k) world \<times> nat \<times> ('p, 'o list, 'k) train_state" where
  "train lib args_checkpoint cfg w n =
     (case train_start lib args_checkpoint cfg w of
        Inl e \<Rightarrow> Inl e
      | Inr (w', state) \<Rightarrow>
          train_loop lib cfg
            (frame_extractor lib (data_dir cfg) (bs cfg) (fst (snd (snd state)))) n (w', 0, state))"

subsection \<open>Arrays given by an index function\<close>

text \<open>
  \<open>tab s f\<close> is the well-formed array of shape \<open>s\<close> whose \<open>i\<close>-th element, in row-major
  order, is \<open>f i\<close>. Every well-formed array is of this form; the proofs read arrays so.
\<close>

definition tab :: "nat list \<Rightarrow> (nat \<Rightarrow> 'a) \<Rightarrow> 'a tensor" where
  "tab s f = Tensor s (map f [0..<prod_list s])"

subsection \<open>The objective in the words of the specification\<close>

text \<open>
  The closed forms of section 4.1 of the specification, on single elements, and the
  six steps of section 4.2 on the elements of the batch. They are written from the
  specification, to be compared with \<open>vae_loss\<close>, which is written from the code.
\<close>

definition kl_elem :: "real \<Rightarrow> real \<Rightarrow> real \<Rightarrow> real \<Rightarrow> real" where
  "kl_elem mean_p logvar_p mean_q logvar_q =
     (logvar_q - logvar_p + (exp logvar_p + (mean_p - mean_q)\<^sup>2) / exp logvar_q - 1) / 2"

definition log_prob_elem :: "real \<Rightarrow> real \<Rightarrow> real \<Rightarrow> real" where
  "log_prob_elem mean logvar x = - (1 / 2) * (x - mean)\<^sup>2 / exp logvar - logvar / 2 - ln (sqrt (2 * pi))"

definition reparam :: "real \<Rightarrow> real \<Rightarrow> real \<Rightarrow> real" where
  "reparam mean logvar eps = mean + exp (logvar / 2) * eps"

text \<open>
  Example \<open>r\<close> of a batch: its shape is the shape of the batch without the leading
  axis, and its element \<open>c\<close> is element \<open>r * k + c\<close> of the batch, \<open>k\<close> being the number
  of elements of one example.
\<close>

definition example :: "'a tensor \<Rightarrow> nat \<Rightarrow> 'a tensor" where
  "example t r =
     (let s = tl (shape t) in tab s (\<lambda>c. elems t ! (r * prod_list s + c)))"

text \<open>
  A function applied to every example of a batch, the results laid out example after
  example: the leading extent is that of the batch, and element \<open>j\<close> of the result is
  element \<open>j mod k\<close> of the result for example \<open>j div k\<close>, where \<open>k\<close> is the number of
  elements of one result.
\<close>

definition batched :: "('a tensor \<Rightarrow> 'b tensor) \<Rightarrow> 'a tensor \<Rightarrow> 'b tensor" where
  "batched f t =
     (let out = f (example t 0); k = tsize out
      in tab (hd (shape t) # shape out) (\<lambda>j. elems (f (example t (j div k))) ! (j mod k)))"

definition spec_latent_sample ::
  "('k \<Rightarrow> nat list \<Rightarrow> nat \<Rightarrow> real) \<Rightarrow> net \<Rightarrow> real tensor \<Rightarrow> 'k \<Rightarrow> real tensor" where
  "spec_latent_sample nrm encoder data key =
     (let q_mean = batched (\<lambda>x. fst (encoder x)) data;
          q_logvar = batched (\<lambda>x. snd (encoder x)) data
      in tab (shape q_mean)
           (\<lambda>j. reparam (elems q_mean ! j) (elems q_logvar ! j) (nrm key (shape q_mean) j)))"

definition spec_vae_loss ::
  "('k \<Rightarrow> nat list \<Rightarrow> nat \<Rightarrow> real) \<Rightarrow> net \<times> net \<Rightarrow> real tensor \<Rightarrow> 'k \<Rightarrow> real" where
  "spec_vae_loss nrm vae data key =
     (let encoder = fst vae; decoder = snd vae;
          q_mean = batched (\<lambda>x. fst (encoder x)) data;
          q_logvar = batched (\<lambda>x. snd (encoder x)) data;
          z = spec_latent_sample nrm encoder data key;
          p_mean = batched (\<lambda>x. fst (decoder x)) z;
          p_logvar = batched (\<lambda>x. snd (decoder x)) z
      in ((\<Sum>j<tsize data. - log_prob_elem (elems p_mean ! j) (elems p_logvar ! j) (elems data ! j))
          + (\<Sum>j<tsize q_mean. kl_elem (elems q_mean ! j) (elems q_logvar ! j) 0 0))
         / real (tsize data))"

text \<open>
  The contract of a model: the encoder maps a frame of shape \<open>fs\<close> to a Gaussian of
  shape \<open>ls\<close>, the decoder a latent array of shape \<open>ls\<close> to a Gaussian of shape \<open>fs\<close>.
\<close>

definition gaussian_shaped :: "nat list \<Rightarrow> 'a tensor \<times> 'a tensor \<Rightarrow> bool" where
  "gaussian_shaped s p \<longleftrightarrow>
     wf_tensor (fst p) \<and> wf_tensor (snd p) \<and> shape (fst p) = s \<and> shape (snd p) = s"

definition maps_shape :: "nat list \<Rightarrow> nat list \<Rightarrow> net \<Rightarrow> bool" where
  "maps_shape s s' f \<longleftrightarrow> (\<forall>x. wf_tensor x \<and> shape x = s \<longrightarrow> gaussian_shaped s' (f x))"

subsection \<open>Sampling in the words of the claims\<close>

text \<open>
  What \<open>sample_vae\<close> is to return: the latent sample is the standard-normal draw of
  shape \<open>[n_samples, n_latent]\<close> made with the first key; the decoder is applied to every
  latent example; the output is the reparameterized draw from the decoder's Gaussian
  made with the second key.
\<close>

definition spec_sample_vae ::
  "('k \<Rightarrow> nat list \<Rightarrow> nat \<Rightarrow> real) \<Rightarrow> 'k \<Rightarrow> 'k \<Rightarrow> nat \<Rightarrow> nat \<Rightarrow> net \<Rightarrow> real tensor" where
  "spec_sample_vae nrm z_key x_key n_lat n_samples decoder =
     (let z = tab [n_samples, n_lat] (nrm z_key [n_samples, n_lat]);
          p_mean = batched (\<lambda>x. fst (decoder x)) z;
          p_logvar = batched (\<lambda>x. snd (decoder x)) z
      in tab (shape p_mean)
           (\<lambda>j. reparam (elems p_mean ! j) (elems p_logvar ! j) (nrm x_key (shape p_mean) j)))"

subsection \<open>Reordering a batch\<close>

text \<open>
  \<^verbatim>\<open>data[perm]\<close>: the examples of a batch in the order the index list gives. \<open>perm\<close> is a
  permutation of the batch when it lists every index below the batch size once.
\<close>

definition permute_examples :: "nat list \<Rightarrow> 'a tensor \<Rightarrow> 'a tensor" where
  "permute_examples perm t =
     Tensor (length perm # tl (shape t)) (concat (map (\<lambda>i. elems (rows t ! i)) perm))"

definition is_permutation :: "nat list \<Rightarrow> nat \<Rightarrow> bool" where
  "is_permutation perm n \<longleftrightarrow> mset perm = mset [0..<n]"

text \<open>
  The same reordering applied to the rows of a draw: row \<open>r\<close> of the new draw is row
  \<open>perm ! r\<close> of the old one, a row being the block of elements for one example.
\<close>

definition permute_draw ::
  "nat list \<Rightarrow> ('k \<Rightarrow> nat list \<Rightarrow> nat \<Rightarrow> 'a) \<Rightarrow> 'k \<Rightarrow> nat list \<Rightarrow> nat \<Rightarrow> 'a" where
  "permute_draw perm nrm key s j =
     (let k = prod_list (tl s) in nrm key s (perm ! (j div k) * k + j mod k))"

text \<open>
  What one example \<open>x\<close> contributes to the sums of the objective, given the noise
  \<open>eps\<close> of its latent draw: its reconstruction term and its KL term.
\<close>

definition example_loss :: "net \<Rightarrow> net \<Rightarrow> nat list \<Rightarrow> real tensor \<Rightarrow> (nat \<Rightarrow> real) \<Rightarrow> real" where
  "example_loss encoder decoder ls x eps =
     (let q = encoder x;
          z = tab ls (\<lambda>c. reparam (elems (fst q) ! c) (elems (snd q) ! c) (eps c));
          p = decoder z
      in (\<Sum>c<tsize x. - log_prob_elem (elems (fst p) ! c) (elems (snd p) ! c) (elems x ! c))
         + (\<Sum>c<prod_list ls. kl_elem (elems (fst q) ! c) (elems (snd q) ! c) 0 0))"

text \<open>
  Two small models for concrete runs. The first is the identity-like network of the
  specification's end-to-end scenario (mean = input, log-variance = 0); the second
  doubles its input for the mean.
\<close>

definition identity_net :: net where
  "identity_net x = (x, Tensor (shape x) (map (\<lambda>v. 0) (elems x)))"

definition doubling_net :: net where
  "doubling_net x = (Tensor (shape x) (map (\<lambda>v. 2 * v) (elems x)), Tensor (shape x) (map (\<lambda>v. 0) (elems x)))"

subsection \<open>Reading off a run\<close>

text \<open>
  The world a run leaves behind (also when an error ended it), the iteration counter
  of the state it reached, and the iteration numbers in the tags of the persisted
  checkpoints, newest first.
\<close>

definition final_world ::
  "error \<times> ('p, 'o, 'k) world + ('p, 'o, 'k) world \<times> nat \<times> ('p, 'o, 'k) train_state \<Rightarrow> ('p, 'o, 'k) world" where
  "final_world r = (case r of Inl (e, w) \<Rightarrow> w | Inr (w, pos, state) \<Rightarrow> w)"

definition final_iteration ::
  "error \<times> ('p, 'o, 'k) world + ('p, 'o, 'k) world \<times> nat \<times> ('p, 'o, 'k) train_state \<Rightarrow> int option" where
  "final_iteration r = (case r of Inl (e, w) \<Rightarrow> None | Inr (w, pos, state) \<Rightarrow> Some (snd (snd (snd state))))"

definition saved_tags :: "('p, 'o, 'k) world \<Rightarrow> int list" where
  "saved_tags w = map (\<lambda>c. fst (snd (fst c))) (checkpoints w)"

definition saved_iterations :: "('p, 'o, 'k) world \<Rightarrow> int list" where
  "saved_iterations w = map (\<lambda>c. snd (snd (snd (snd c)))) (checkpoints w)"

subsection \<open>A concrete setting for runs\<close>

text \<open>
  A small instance of the library for concrete runs: keys are natural numbers, split
  by doubling; modules and optimizer states carry nothing; every module is the
  identity-like network; gradients leave the model as it is; the frame extractor
  yields the all-zero batch of one one-pixel frame for ever; a loss is printed as a
  fixed text. The configuration has the checkpoint interval as its parameter; the
  file system starts empty.
\<close>

definition unit_transformation :: "(unit \<times> unit, unit) transformation" where
  "unit_transformation = \<lparr> t_init = (\<lambda>params. ()), t_update = (\<lambda>g s. (g, s)) \<rparr>"

definition small_library :: "(unit, unit, nat) library" where
  "small_library =
     \<lparr> jax_random_PRNGKey = (\<lambda>s. nat s),
       jax_random_split = (\<lambda>k. (2 * k, 2 * k + 1)),
       jax_random_normal_fn = (\<lambda>k s i. 0),
       jax_grad = (\<lambda>f m d k. m),
       apply_updates = (\<lambda>m u. m),
       optax_adam = (\<lambda>r. unit_transformation),
       optax_zero_nans = unit_transformation,
       optax_clip_by_global_norm = (\<lambda>r. unit_transformation),
       VAEEncoder = (\<lambda>l i m k. ()),
       VAEDecoder = (\<lambda>l i m k. ()),
       module_call = (\<lambda>p. identity_net),
       frame_extractor = (\<lambda>d b k i. Some (Tensor [1, 1] [0])),
       format_loss = (\<lambda>l. ''0.9189385'') \<rparr>"

definition small_config :: "int \<Rightarrow> config" where
  "small_config c =
     \<lparr> seed = 0, n_latent = 1, target_size = 1, size_multiplier = 1, ckpt_dir = ''ckpt'',
       lr = 1 / 1000, ckpt_interval = c, data_dir = ''videos'', bs = 1, clip_norm = 1,
       metrics_path = ''metrics/loss.txt'' \<rparr>"

definition empty_world :: "(unit, unit list, nat) world" where
  "empty_world = \<lparr> dirs = {}, files = Map.empty, checkpoints = [], console = [] \<rparr>"

text \<open>
  The world an earlier run left: a metrics log with one line, and the checkpoint
  tagged 2.
\<close>

definition earlier_world :: "(unit, unit list, nat) world" where
  "earlier_world =
     \<lparr> dirs = {''metrics''},
       files = [''metrics/loss.txt'' \<mapsto> ''0.9189385'' @ [CHR 0x0A]],
       checkpoints = [((''ckpt'', 2, ''vae''), (((), ()), [(), (), ()], 2, 1))],
       console = [''---------CHECKPOINT SAVED----------''] \<rparr>"

section \<open>Binary32\<close>

text \<open>
  The arrays of the program hold binary32 numbers. Two claims turn on what the real
  numbers do not have: the infinities and NaN. A binary32 value is a real number,
  an infinity or NaN; the two zeros are not told apart.
\<close>

datatype float32 = Fin real | PInf | NInf | NaN

text \<open>
  The arithmetic of IEEE 754: the exact result of an operation on two numbers is
  rounded, by the function \<open>rd\<close>, to a binary32 value, which is an infinity when the
  result is out of range. What the rounding is within the range does not matter
  below, and \<open>rd\<close> is a parameter. The operations on infinities and NaN are those of
  the standard; a quotient by zero is an infinity, or NaN for \<open>0 / 0\<close>.
\<close>

fun f32_add :: "(real \<Rightarrow> float32) \<Rightarrow> float32 \<Rightarrow> float32 \<Rightarrow> float32" where
  "f32_add rd (Fin x) (Fin y) = rd (x + y)"
| "f32_add rd NaN b = NaN"
| "f32_add rd a NaN = NaN"
| "f32_add rd PInf NInf = NaN"
| "f32_add rd NInf PInf = NaN"
| "f32_add rd PInf b = PInf"
| "f32_add rd NInf b = NInf"
| "f32_add rd a PInf = PInf"
| "f32_add rd a NInf = NInf"

fun f32_sub :: "(real \<Rightarrow> float32) \<Rightarrow> float32 \<Rightarrow> float32 \<Rightarrow> float32" where
  "f32_sub rd (Fin x) (Fin y) = rd (x - y)"
| "f32_sub rd NaN b = NaN"
| "f32_sub rd a NaN = NaN"
| "f32_sub rd PInf PInf = NaN"
| "f32_sub rd NInf NInf = NaN"
| "f32_sub rd PInf b = PInf"
| "f32_sub rd NInf b = NInf"
| "f32_sub rd a PInf = NInf"
| "f32_sub rd a NInf = PInf"

fun f32_mul :: "(real \<Rightarrow> float32) \<Rightarrow> float32 \<Rightarrow> float32 \<Rightarrow> float32" where
  "f32_mul rd (Fin x) (Fin y) = rd (x * y)"
| "f32_mul rd NaN b = NaN"
| "f32_mul rd a NaN = NaN"
| "f32_mul rd (Fin x) PInf = (if x = 0 then NaN else if 0 < x then PInf else NInf)"
| "f32_mul rd (Fin x) NInf = (if x = 0 then NaN else if 0 < x then NInf else PInf)"
| "f32_mul rd PInf (Fin y) = (if y = 0 then NaN else if 0 < y then PInf else NInf)"
| "f32_mul rd NInf (Fin y) = (if y = 0 then NaN else if 0 < y then NInf else PInf)"
| "f32_mul rd PInf PInf = PInf"
| "f32_mul rd NInf NInf = PInf"
| "f32_mul rd PInf NInf = NInf"
| "f32_mul rd NInf PInf = NInf"

fun f32_div :: "(real \<Rightarrow> float32) \<Rightarrow> float32 \<Rightarrow> float32 \<Rightarrow> float32" where
  "f32_div rd (Fin x) (Fin y) =
     (if y = 0 then (if x = 0 then NaN else if 0 < x then PInf else NInf) else rd (x / y))"
| "f32_div rd NaN b = NaN"
| "f32_div rd a NaN = NaN"
| "f32_div rd (Fin x) b = Fin 0"
| "f32_div rd PInf (Fin y) = (if 0 \<le> y then PInf else NInf)"
| "f32_div rd NInf (Fin y) = (if 0 \<le> y then NInf else PInf)"
| "f32_div rd a b = NaN"

fun f32_exp :: "(real \<Rightarrow> float32) \<Rightarrow> float32 \<Rightarrow> float32" where
  "f32_exp rd (Fin x) = rd (exp x)"
| "f32_exp rd PInf = PInf"
| "f32_exp rd NInf = Fin 0"
| "f32_exp rd NaN = NaN"

text \<open>
  \<open>gaussian_kl_divergence\<close> in this arithmetic: the same expression, operation by
  operation. \<^verbatim>\<open>x**2\<close> is the product \<open>x * x\<close>; the Python integers 1 and 2 become the
  binary32 numbers 1 and 2.
\<close>

definition gaussian_kl_divergence_f32 ::
  "(real \<Rightarrow> float32) \<Rightarrow> float32 tval \<times> float32 tval \<Rightarrow> float32 tval \<times> float32 tval \<Rightarrow> float32 tval" where
  "gaussian_kl_divergence_f32 rd p q =
     (case p of (p_mean, p_log_var) \<Rightarrow>
      case q of (q_mean, q_log_var) \<Rightarrow>
        elementwise2 (f32_div rd)
          (elementwise2 (f32_sub rd)
             (elementwise2 (f32_add rd)
                (elementwise2 (f32_sub rd) q_log_var p_log_var)
                (elementwise2 (f32_div rd)
                   (elementwise2 (f32_add rd)
                      (tmap (f32_exp rd) p_log_var)
                      (tmap (\<lambda>d. f32_mul rd d d) (elementwise2 (f32_sub rd) p_mean q_mean)))
                   (tmap (f32_exp rd) q_log_var)))
             (scalar (Fin 1)))
          (scalar (Fin 2)))"

text \<open>
  A rounding for concrete evaluation. It has the range of binary32: a number of
  magnitude \<open>2 ^ 128\<close> or more becomes an infinity, a number of magnitude at most
  \<open>2 ^ 150\<close> to the minus one becomes zero. Between these it rounds nothing, which
  is what binary32 does to the numbers of the examples below.
\<close>

definition range_round :: "real \<Rightarrow> float32" where
  "range_round x =
     (if 2 ^ 128 \<le> x then PInf
      else if x \<le> - (2 ^ 128) then NInf
      else if \<bar>x\<bar> \<le> 1 / 2 ^ 150 then Fin 0
      else Fin x)"

subsection \<open>Showing a sample\<close>

text \<open>
  \<^verbatim>\<open>jax.lax.clamp(lo, x, hi)\<close>, elementwise \<open>min (max x lo) hi\<close>, where \<open>min\<close> and \<open>max\<close>
  pass NaN on: an infinity is brought to the bound, NaN stays NaN.
\<close>

fun clamp :: "real \<Rightarrow> float32 \<Rightarrow> real \<Rightarrow> float32" where
  "clamp lo (Fin x) hi = Fin (min (max x lo) hi)"
| "clamp lo PInf hi = Fin hi"
| "clamp lo NInf hi = Fin (min lo hi)"
| "clamp lo NaN hi = NaN"

definition jax_lax_clamp :: "real \<Rightarrow> float32 tval \<Rightarrow> real \<Rightarrow> float32 tval" where
  "jax_lax_clamp lo x hi = tmap (\<lambda>v. clamp lo v hi) x"

text \<open>
  \<^verbatim>\<open>y.transpose(2,1,0)\<close>: the array must have three axes; the element at \<open>(k, j, i)\<close> of
  the result is the element at \<open>(i, j, k)\<close> of the operand.
\<close>

fun transpose_2_1_0 :: "'a tval \<Rightarrow> 'a tval" where
  "transpose_2_1_0 (Raise e) = Raise e"
| "transpose_2_1_0 (Val t) =
     (case shape t of
        [a, b, c] \<Rightarrow>
          Val (Tensor [c, b, a]
                 (map (\<lambda>n. elems t ! ((n mod a) * (b * c) + (n div a mod b) * c + n div (a * b)))
                    [0..<c * b * a]))
      | _ \<Rightarrow> Raise AxisError)"

text \<open>
  The conversion of a binary32 value to \<^verbatim>\<open>uint8\<close>: a number that fits is truncated.
  What becomes of a value that does not fit, of an infinity and of NaN depends on the
  platform; it is the parameter \<open>cvt\<close>.
\<close>

definition to_uint8 :: "(float32 \<Rightarrow> 8 word) \<Rightarrow> float32 \<Rightarrow> 8 word" where
  "to_uint8 cvt v =
     (case v of
        Fin x \<Rightarrow> if 0 \<le> x \<and> x < 256 then word_of_int \<lfloor>x\<rfloor> else cvt v
      | _ \<Rightarrow> cvt v)"

text \<open>
  \<^verbatim>\<open>
  def show_samples(samples):
      y = jax.lax.clamp(0., samples ,255.)
      frame = jnp.array(y.transpose(2,1,0),dtype=jnp.uint8)
      cv2.imshow('Random Frame', frame)
      cv2.waitKey(0)
      cv2.destroyAllWindows()
  \<close>
  The value is the frame handed to \<^verbatim>\<open>cv2.imshow\<close>, or the exception raised before.
\<close>

definition show_samples :: "(float32 \<Rightarrow> 8 word) \<Rightarrow> float32 tval \<Rightarrow> 8 word tval" where
  "show_samples cvt samples =
     (let y = jax_lax_clamp 0 samples 255;
          frame = tmap (to_uint8 cvt) (transpose_2_1_0 y)
      in frame)"

section \<open>Properties of the array operations\<close>


lemma length_concat_const:
  "(\<And>j. j < n \<Longrightarrow> length (f j) = k) \<Longrightarrow> length (concat (map f [0..<n])) = n * k"
  by (induction n) simp_all

lemma chunk_concat_map:
  assumes "i < n" and "\<And>j. j < n \<Longrightarrow> length (f j) = k"
  shows "chunk k i (concat (map f [0..<n])) = f i"
  using assms
proof (induction n)
  case 0
  then show ?case by simp
next
  case (Suc n)
  have len: "length (concat (map f [0..<n])) = n * k"
    using Suc.prems(2) by (simp add: length_concat_const)
  show ?case
  proof (cases "i < n")
    case True
    then have "Suc i \<le> n" by simp
    then have "(Suc i) * k \<le> n * k" by (rule mult_le_mono1)
    then have "chunk k i (concat (map f [0..<n]) @ f n) = chunk k i (concat (map f [0..<n]))"
      using len by (simp add: chunk_def)
    then show ?thesis using Suc True by simp
  next
    case False
    then have "i = n" using Suc.prems(1) by simp
    then show ?thesis using len Suc.prems(2) by (simp add: chunk_def)
  qed
qed

lemma length_chunk_wf:
  "length xs = n * k \<Longrightarrow> i < n \<Longrightarrow> length (chunk k i xs) = k"
proof -
  assume a: "length xs = n * k" "i < n"
  then have "Suc i \<le> n" by simp
  then have "Suc i * k \<le> n * k" by (rule mult_le_mono1)
  then show ?thesis using a by (simp add: chunk_def)
qed

lemma jnp_concatenate_axis1:
  assumes "shape a = n # d1 # r" "shape b = n # d2 # r"
  shows "jnp_concatenate a b 1 =
           Val (Tensor (n # (d1 + d2) # r)
             (concat (map (\<lambda>i. chunk (d1 * prod_list r) i (elems a)
                               @ chunk (d2 * prod_list r) i (elems b)) [0..<n])))"
  using assms by (simp add: jnp_concatenate_def)

lemma jnp_concatenate_mismatch:
  assumes "shape a = n # d1 # r" "shape b = m # d2 # r'" "n \<noteq> m \<or> r \<noteq> r'"
  shows "jnp_concatenate a b 1 = Raise ShapeMismatch"
  using assms by (cases "length r' = length r") (auto simp add: jnp_concatenate_def Let_def)

lemma rows_concatenate:
  assumes "wf_tensor a" "wf_tensor b" "shape a = n # d1 # r" "shape b = n # d2 # r"
    and "jnp_concatenate a b 1 = Val c"
  shows "map elems (rows c) = map2 (@) (map elems (rows a)) (map elems (rows b))"
    and "wf_tensor c"
proof -
  let ?f = "\<lambda>i. chunk (d1 * prod_list r) i (elems a) @ chunk (d2 * prod_list r) i (elems b)"
  have c: "c = Tensor (n # (d1 + d2) # r) (concat (map ?f [0..<n]))"
    using jnp_concatenate_axis1[OF assms(3,4)] assms(5) by simp
  have la: "length (elems a) = n * (d1 * prod_list r)" and lb: "length (elems b) = n * (d2 * prod_list r)"
    using assms(1-4) by (simp_all add: wf_tensor_def)
  have len: "\<And>j. j < n \<Longrightarrow> length (?f j) = (d1 + d2) * prod_list r"
    using length_chunk_wf[OF la] length_chunk_wf[OF lb] by (simp add: algebra_simps)
  have "map elems (rows c) = map ?f [0..<n]"
    using chunk_concat_map[of _ n ?f, OF _ len] by (simp add: c rows_def)
  also have "\<dots> = map2 (@) (map elems (rows a)) (map elems (rows b))"
    using assms(3,4) by (simp add: rows_def map2_map_map o_def)
  finally show "map elems (rows c) = map2 (@) (map elems (rows a)) (map elems (rows b))" .
  show "wf_tensor c" using len by (simp add: c wf_tensor_def length_concat_const algebra_simps)
qed

text \<open>
  Claim C6. Concatenating two Gaussians joins their means and their log-variances
  along axis 1. For operands of shapes \<open>n # d1 # r\<close> and \<open>m # d2 # r'\<close> (rank two is
  \<open>r = r' = []\<close>, the shapes \<open>[B, D1]\<close> and \<open>[B, D2]\<close>): when every other axis agrees the
  result has shape \<open>n # (d1 + d2) # r\<close> and each of its rows is the row of the first
  operand followed by the row of the second; when another axis differs (the batch
  extent, or a trailing one) the call fails with \<open>ShapeMismatch\<close> and returns nothing.
\<close>

theorem concat_probabilties_axis1:
  fixes p_a p_b :: "'a tensor \<times> 'a tensor"
  assumes "wf_tensor (fst p_a)" "wf_tensor (snd p_a)" "wf_tensor (fst p_b)" "wf_tensor (snd p_b)"
    and "shape (fst p_a) = n # d1 # r" "shape (snd p_a) = n # d1 # r"
    and "shape (fst p_b) = m # d2 # r'" "shape (snd p_b) = m # d2 # r'"
  shows "(n = m \<and> r = r' \<longrightarrow>
            (\<exists>mean log_var.
               concat_probabilties p_a p_b = Inr (mean, log_var)
               \<and> shape mean = n # (d1 + d2) # r \<and> shape log_var = n # (d1 + d2) # r
               \<and> wf_tensor mean \<and> wf_tensor log_var
               \<and> map elems (rows mean) = map2 (@) (map elems (rows (fst p_a))) (map elems (rows (fst p_b)))
               \<and> map elems (rows log_var) = map2 (@) (map elems (rows (snd p_a))) (map elems (rows (snd p_b)))))
       \<and> (n \<noteq> m \<or> r \<noteq> r' \<longrightarrow> concat_probabilties p_a p_b = Inl ShapeMismatch)"
proof (intro conjI impI)
  assume eq: "n = m \<and> r = r'"
  have sb: "shape (fst p_b) = n # d2 # r" "shape (snd p_b) = n # d2 # r"
    using assms(7,8) eq by simp_all
  obtain mean where mean: "jnp_concatenate (fst p_a) (fst p_b) 1 = Val mean"
    and sm: "shape mean = n # (d1 + d2) # r"
    using jnp_concatenate_axis1[OF assms(5) sb(1)] by simp
  obtain log_var where lv: "jnp_concatenate (snd p_a) (snd p_b) 1 = Val log_var"
    and sl: "shape log_var = n # (d1 + d2) # r"
    using jnp_concatenate_axis1[OF assms(6) sb(2)] by simp
  have "concat_probabilties p_a p_b = Inr (mean, log_var)"
    unfolding concat_probabilties_def mean lv by simp
  then show "\<exists>mean log_var.
               concat_probabilties p_a p_b = Inr (mean, log_var)
               \<and> shape mean = n # (d1 + d2) # r \<and> shape log_var = n # (d1 + d2) # r
               \<and> wf_tensor mean \<and> wf_tensor log_var
               \<and> map elems (rows mean) = map2 (@) (map elems (rows (fst p_a))) (map elems (rows (fst p_b)))
               \<and> map elems (rows log_var) = map2 (@) (map elems (rows (snd p_a))) (map elems (rows (snd p_b)))"
    using sm sl
      rows_concatenate[OF assms(1) assms(3) assms(5) sb(1) mean]
      rows_concatenate[OF assms(2) assms(4) assms(6) sb(2) lv]
    by blast
next
  assume "n \<noteq> m \<or> r \<noteq> r'"
  then have "jnp_concatenate (fst p_a) (fst p_b) 1 = Raise ShapeMismatch"
    using jnp_concatenate_mismatch[OF assms(5) assms(7)] by simp
  then show "concat_probabilties p_a p_b = Inl ShapeMismatch"
    unfolding concat_probabilties_def by simp
qed

theorem concat_probabilties_axis1_witness:
  "concat_probabilties (Tensor [2, 1] [1, 2 :: int], Tensor [2, 1] [3, 4])
                       (Tensor [2, 2] [5, 6, 7, 8], Tensor [2, 2] [9, 10, 11, 12])
     = Inr (Tensor [2, 3] [1, 5, 6, 2, 7, 8], Tensor [2, 3] [3, 9, 10, 4, 11, 12])
   \<and> concat_probabilties (Tensor [2, 1] [1, 2 :: int], Tensor [2, 1] [3, 4])
                         (Tensor [3, 1] [5, 6, 7], Tensor [3, 1] [9, 10, 11])
     = Inl ShapeMismatch"
  using concat_probabilties_axis1[of "(Tensor [2, 1] [1, 2 :: int], Tensor [2, 1] [3, 4])"
          "(Tensor [2, 2] [5, 6, 7, 8], Tensor [2, 2] [9, 10, 11, 12])" 2 1 "[]" 2 2 "[]"]
        concat_probabilties_axis1[of "(Tensor [2, 1] [1, 2 :: int], Tensor [2, 1] [3, 4])"
          "(Tensor [3, 1] [5, 6, 7], Tensor [3, 1] [9, 10, 11])" 2 1 "[]" 3 1 "[]"]
  by (simp add: wf_tensor_def concat_probabilties_def jnp_concatenate_def chunk_def upt_rec)

lemma wf_tab: "wf_tensor (tab s f)"
  by (simp add: wf_tensor_def tab_def)

lemma shape_tab: "shape (tab s f) = s"
  by (simp add: tab_def)

lemma tensor_as_tab: "wf_tensor t \<Longrightarrow> t = tab (shape t) (\<lambda>i. elems t ! i)"
  by (cases t) (simp add: wf_tensor_def tab_def map_nth list_eq_iff_nth_eq)

lemma chunk_map_upt:
  assumes "i < n"
  shows "chunk k i (map f [0..<n * k]) = map (\<lambda>c. f (i * k + c)) [0..<k]"
proof -
  have "Suc i \<le> n" using assms by simp
  then have le: "Suc i * k \<le> n * k" by (rule mult_le_mono1)
  have "drop (i * k) (map f [0..<n * k]) = map f [i * k..<n * k]"
    by (simp add: drop_map)
  moreover have "take k [i * k..<n * k] = [i * k..<i * k + k]"
    using le by (simp add: take_upt)
  ultimately have "chunk k i (map f [0..<n * k]) = map f [i * k..<i * k + k]"
    by (simp add: chunk_def take_map)
  also have "\<dots> = map (\<lambda>c. f (i * k + c)) [0..<k]"
    by (simp add: map_add_upt[symmetric] o_def add.commute del: map_add_upt)
  finally show ?thesis .
qed

lemma concat_chunks:
  "length xs = n * k \<Longrightarrow> concat (map (\<lambda>i. chunk k i xs) [0..<n]) = xs"
proof (induction n arbitrary: xs)
  case 0
  then show ?case by simp
next
  case (Suc n)
  have "concat (map (\<lambda>i. chunk k i xs) [0..<n]) = concat (map (\<lambda>i. chunk k i (take (n * k) xs)) [0..<n])"
  proof (rule arg_cong[where f = concat], rule map_cong[OF refl])
    fix i assume "i \<in> set [0..<n]"
    then have "Suc i \<le> n" by simp
    then have "Suc i * k \<le> n * k" by (rule mult_le_mono1)
    then show "chunk k i xs = chunk k i (take (n * k) xs)"
      by (simp add: chunk_def drop_take take_take min_def) 
  qed
  also have "\<dots> = take (n * k) xs"
    using Suc.prems by (intro Suc.IH) simp
  finally have a: "concat (map (\<lambda>i. chunk k i xs) [0..<n]) = take (n * k) xs" .
  have b: "chunk k n xs = drop (n * k) xs"
    using Suc.prems by (simp add: chunk_def)
  show ?case by (simp add: a b)
qed

lemma broadcast_rev_same: "broadcast_rev s s = Some s"
  by (induction s) simp_all

lemma broadcast_shapes_same [simp]: "broadcast_shapes s s = Some s"
  by (simp add: broadcast_shapes_def broadcast_rev_same)

lemma broadcast_rev_Nil2: "broadcast_rev s [] = Some s"
  by (cases s) simp_all

lemma broadcast_shapes_Nil [simp]: "broadcast_shapes s [] = Some s" "broadcast_shapes [] s = Some s"
  by (simp_all add: broadcast_shapes_def broadcast_rev_Nil2)

lemma expand_same: "length xs = prod_list s \<Longrightarrow> expand s s xs = xs"
proof (induction s arbitrary: xs)
  case Nil
  then show ?case by simp
next
  case (Cons n ns)
  have len: "length xs = n * prod_list ns" using Cons.prems by simp
  have "map (\<lambda>i. expand ns ns (chunk (prod_list ns) i xs)) [0..<n] = map (\<lambda>i. chunk (prod_list ns) i xs) [0..<n]"
  proof (rule map_cong[OF refl])
    fix i assume "i \<in> set [0..<n]"
    then have "i < n" by simp
    have "length (chunk (prod_list ns) i xs) = prod_list ns"
      by (rule length_chunk_wf[OF len \<open>i < n\<close>])
    then show "expand ns ns (chunk (prod_list ns) i xs) = chunk (prod_list ns) i xs"
      by (rule Cons.IH)
  qed
  then have "concat (map (\<lambda>i. expand ns ns (chunk (prod_list ns) i xs)) [0..<n]) = xs"
    using concat_chunks[OF len] by (simp only:)
  then show ?case by simp
qed

lemma concat_replicate_replicate: "concat (replicate n (replicate k c)) = replicate (n * k) c"
  by (induction n) (simp_all add: replicate_add)

lemma expand_scalar: "expand s (replicate (length s) 1) [c] = replicate (prod_list s) c"
proof (induction s)
  case Nil
  then show ?case by simp
next
  case (Cons n ns)
  have p1: "prod_list (replicate (length ns) (1::nat)) = 1"
    by (induction ns) simp_all
  show ?case
  proof (cases "n = 1")
    case True
    then show ?thesis using Cons.IH by (simp add: p1 chunk_def)
  next
    case False
    then have "expand (n # ns) (replicate (length (n # ns)) 1) [c] = concat (replicate n (expand ns (replicate (length ns) 1) [c]))"
      by simp
    then show ?thesis using Cons.IH by (simp add: concat_replicate_replicate)
  qed
qed

lemma broadcast_to_same: "wf_tensor t \<Longrightarrow> broadcast_to (shape t) t = elems t"
  by (simp add: broadcast_to_def wf_tensor_def expand_same)

lemma broadcast_to_scalar: "broadcast_to s (Tensor [] [c]) = replicate (prod_list s) c"
  using expand_scalar[of s c] by (simp add: broadcast_to_def)

lemma map2_upt: "map2 g (map f [0..<n]) (map h [0..<n]) = map (\<lambda>i. g (f i) (h i)) [0..<n]"
  by (simp add: list_eq_iff_nth_eq)

lemma ew2_tab: "elementwise2 g (Val (tab s f)) (Val (tab s h)) = Val (tab s (\<lambda>i. g (f i) (h i)))"
  using broadcast_to_same[OF wf_tab, of s f] broadcast_to_same[OF wf_tab, of s h]
  by (simp add: shape_tab) (simp add: tab_def map2_upt)

lemma ew2_tab_scalar: "elementwise2 g (Val (tab s f)) (scalar c) = Val (tab s (\<lambda>i. g (f i) c))"
  using broadcast_to_same[OF wf_tab, of s f]
  by (simp add: shape_tab scalar_def broadcast_to_scalar) (simp add: tab_def list_eq_iff_nth_eq)

lemma ew2_scalar_tab: "elementwise2 g (scalar c) (Val (tab s f)) = Val (tab s (\<lambda>i. g c (f i)))"
  using broadcast_to_same[OF wf_tab, of s f]
  by (simp add: shape_tab scalar_def broadcast_to_scalar) (simp add: tab_def list_eq_iff_nth_eq)

lemma ew2_scalar_scalar: "elementwise2 g (scalar c) (scalar d) = scalar (g c d)"
  by (simp add: scalar_def broadcast_to_def)

lemma tmap_tab: "tmap g (Val (tab s f)) = Val (tab s (\<lambda>i. g (f i)))"
  by (simp add: tab_def)

lemma tmap_scalar: "tmap g (scalar c) = scalar (g c)"
  by (simp add: scalar_def)

lemma jnp_sum_tab: "jnp_sum (Val (tab s f)) = scalar (\<Sum>i<prod_list s. f i)"
  by (simp add: tab_def sum_list_sum_nth atLeast0LessThan)

lemma rows_tab:
  "rows (tab (n # s) f) = map (\<lambda>r. tab s (\<lambda>c. f (r * prod_list s + c))) [0..<n]"
  by (simp add: rows_def tab_def chunk_map_upt)

lemma map_block:
  "map (\<lambda>j. h (j div k) (j mod k)) [n * k..<n * k + k] = map (h n) [0..<k]"
proof (rule nth_equalityI)
  show "length (map (\<lambda>j. h (j div k) (j mod k)) [n * k..<n * k + k]) = length (map (h n) [0..<k])"
    by simp
next
  fix i assume "i < length (map (\<lambda>j. h (j div k) (j mod k)) [n * k..<n * k + k])"
  then have i: "i < k" by simp
  then have "(n * k + i) div k = n" "(n * k + i) mod k = i" by simp_all
  then show "map (\<lambda>j. h (j div k) (j mod k)) [n * k..<n * k + k] ! i = map (h n) [0..<k] ! i"
    using i by simp
qed

lemma concat_map_tab:
  "concat (map (\<lambda>i. map (h i) [0..<k]) [0..<n]) = map (\<lambda>j. h (j div k) (j mod k)) [0..<n * k]"
proof (induction n)
  case 0
  then show ?case by simp
next
  case (Suc n)
  have "[0..<Suc n * k] = [0..<n * k] @ [n * k..<n * k + k]"
    using upt_add_eq_append[of 0 "n * k" k] by (simp add: add.commute)
  then have "map (\<lambda>j. h (j div k) (j mod k)) [0..<Suc n * k]
      = map (\<lambda>j. h (j div k) (j mod k)) [0..<n * k] @ map (h n) [0..<k]"
    by (simp only: map_append map_block)
  then show ?case using Suc by simp
qed

lemma stack_map:
  assumes "\<And>i. i < n \<Longrightarrow> wf_tensor (g i) \<and> shape (g i) = s"
  shows "stack s (map g [0..<n]) = Val (tab (n # s) (\<lambda>j. elems (g (j div prod_list s)) ! (j mod prod_list s)))"
proof -
  have all: "list_all (\<lambda>u. shape u = s) (map g [0..<n])"
    using assms by (simp add: list_all_iff)
  have el: "elems (g i) = map (\<lambda>c. elems (g i) ! c) [0..<prod_list s]" if "i < n" for i
  proof -
    have "length (elems (g i)) = prod_list s"
      using assms[OF that] by (simp add: wf_tensor_def)
    then show ?thesis using map_nth[of "elems (g i)"] by simp
  qed
  have "map (\<lambda>i. elems (g i)) [0..<n] = map (\<lambda>i. map (\<lambda>c. elems (g i) ! c) [0..<prod_list s]) [0..<n]"
  proof (rule map_cong[OF refl])
    fix i assume "i \<in> set [0..<n]"
    then have "i < n" by simp
    then show "elems (g i) = map (\<lambda>c. elems (g i) ! c) [0..<prod_list s]" by (rule el)
  qed
  then have "concat (map elems (map g [0..<n])) = concat (map (\<lambda>i. map (\<lambda>c. elems (g i) ! c) [0..<prod_list s]) [0..<n])"
    by (simp only: map_map o_def)
  also have "\<dots> = map (\<lambda>j. elems (g (j div prod_list s)) ! (j mod prod_list s)) [0..<n * prod_list s]"
    by (rule concat_map_tab)
  finally have c: "concat (map elems (map g [0..<n])) =
      map (\<lambda>j. elems (g (j div prod_list s)) ! (j mod prod_list s)) [0..<n * prod_list s]" .
  have "stack s (map g [0..<n]) = Val (Tensor (n # s) (concat (map elems (map g [0..<n]))))"
    using all unfolding stack_def by simp
  then show ?thesis by (simp only: c tab_def prod_list.Cons)
qed

lemma tab_cong: "(\<And>i. i < prod_list s \<Longrightarrow> f i = g i) \<Longrightarrow> tab s f = tab s g"
  by (simp add: tab_def)

lemma elems_tab_nth: "i < prod_list s \<Longrightarrow> elems (tab s f) ! i = f i"
  by (simp add: tab_def)

lemma tsize_tab: "tsize (tab s f) = prod_list s"
  by (simp add: tsize_def tab_def)

lemma div_less_rows: "j < n * k \<Longrightarrow> j div k < (n::nat)"
  by (simp add: less_mult_imp_div_less)

lemma example_tab: "shape t = n # s \<Longrightarrow> example t r = tab s (\<lambda>c. elems t ! (r * prod_list s + c))"
  by (simp add: example_def)

lemma example_wf:
  assumes "shape t = n # s"
  shows "wf_tensor (example t r)" and "shape (example t r) = s" and "tsize (example t r) = prod_list s"
  by (simp_all add: example_tab[OF assms] wf_tab shape_tab tsize_tab)

lemma rows_example:
  assumes "wf_tensor t" and "shape t = n # s"
  shows "rows t = map (example t) [0..<n]"
proof -
  have "t = tab (n # s) (\<lambda>i. elems t ! i)"
    using tensor_as_tab[OF assms(1)] assms(2) by simp
  then have "rows t = map (\<lambda>r. tab s (\<lambda>c. elems t ! (r * prod_list s + c))) [0..<n]"
    using rows_tab[of n s "\<lambda>i. elems t ! i"] by simp
  then show ?thesis by (simp add: example_tab[OF assms(2)])
qed

lemma jax_vmap_batched:
  assumes wf: "wf_tensor t" and sh: "shape t = n # s" and f: "maps_shape s s' f"
  shows "jax_vmap f (Val t) = (Val (batched (\<lambda>x. fst (f x)) t), Val (batched (\<lambda>x. snd (f x)) t))"
    and "shape (batched (\<lambda>x. fst (f x)) t) = n # s'"
    and "shape (batched (\<lambda>x. snd (f x)) t) = n # s'"
proof -
  define R where "R = example t"
  have rows: "rows t = map R [0..<n]"
    unfolding R_def by (rule rows_example[OF wf sh])
  have R: "wf_tensor (R r) \<and> shape (R r) = s" for r
    by (simp add: R_def example_wf[OF sh])
  have g: "gaussian_shaped s' (f (R r))" for r
    using f R unfolding maps_shape_def by blast
  have tr: "gaussian_shaped s' (f (Tensor s (replicate (prod_list s) 0)))"
    using f[unfolded maps_shape_def, rule_format, of "Tensor s (replicate (prod_list s) 0)"]
    by (simp add: wf_tensor_def)
  have t1: "shape (fst (f (Tensor s (replicate (prod_list s) 0)))) = s'"
    and t2: "shape (snd (f (Tensor s (replicate (prod_list s) 0)))) = s'"
    using tr by (simp_all add: gaussian_shaped_def)
  have k1: "tsize (fst (f (R 0))) = prod_list s'" and k2: "tsize (snd (f (R 0))) = prod_list s'"
    using g[of 0] by (simp_all add: gaussian_shaped_def tsize_def)
  have s1: "shape (fst (f (R 0))) = s'" and s2: "shape (snd (f (R 0))) = s'"
    using g[of 0] by (simp_all add: gaussian_shaped_def)
  have b1: "batched (\<lambda>x. fst (f x)) t
      = tab (n # s') (\<lambda>j. elems (fst (f (R (j div prod_list s')))) ! (j mod prod_list s'))"
    unfolding batched_def Let_def R_def[symmetric] k1 s1 by (simp add: sh)
  have b2: "batched (\<lambda>x. snd (f x)) t
      = tab (n # s') (\<lambda>j. elems (snd (f (R (j div prod_list s')))) ! (j mod prod_list s'))"
    unfolding batched_def Let_def R_def[symmetric] k2 s2 by (simp add: sh)
  have st1: "stack s' (map (\<lambda>i. fst (f (R i))) [0..<n]) = Val (batched (\<lambda>x. fst (f x)) t)"
    unfolding b1 using g by (intro stack_map) (simp add: gaussian_shaped_def)
  have st2: "stack s' (map (\<lambda>i. snd (f (R i))) [0..<n]) = Val (batched (\<lambda>x. snd (f x)) t)"
    unfolding b2 using g by (intro stack_map) (simp add: gaussian_shaped_def)
  show "jax_vmap f (Val t) = (Val (batched (\<lambda>x. fst (f x)) t), Val (batched (\<lambda>x. snd (f x)) t))"
    using st1 st2 by (simp add: sh rows o_def Let_def t1 t2)
  show "shape (batched (\<lambda>x. fst (f x)) t) = n # s'" by (simp add: b1 shape_tab)
  show "shape (batched (\<lambda>x. snd (f x)) t) = n # s'" by (simp add: b2 shape_tab)
qed

lemma wf_batched: "wf_tensor (batched f t)"
  by (simp add: batched_def Let_def wf_tab)

lemma jax_random_normal_tab: "jax_random_normal nrm key (Val (tab s f)) = Val (tab s (nrm key s))"
  by (simp add: tab_def)

lemma div_tab:
  fixes f h :: "nat \<Rightarrow> real"
  assumes "\<And>i. i < prod_list s \<Longrightarrow> h i \<noteq> 0"
  shows "Val (tab s f) / Val (tab s h) = Val (tab s (\<lambda>i. f i / h i))"
proof -
  have "0 \<notin> set (map h [0..<prod_list s])"
    using assms by auto
  then show ?thesis
    using broadcast_to_same[OF wf_tab, of s f] broadcast_to_same[OF wf_tab, of s h]
    by (simp add: divide_tval_def shape_tab) (simp add: tab_def map2_upt)
qed

lemma div_tab_scalar:
  fixes f :: "nat \<Rightarrow> real"
  assumes "c \<noteq> 0"
  shows "Val (tab s f) / scalar c = Val (tab s (\<lambda>i. f i / c))"
  using broadcast_to_same[OF wf_tab, of s f] assms
  by (simp add: divide_tval_def shape_tab scalar_def broadcast_to_scalar) (simp add: tab_def list_eq_iff_nth_eq)

lemma div_scalar_scalar:
  "scalar (c::real) / scalar d = (if d = 0 then Raise NonFinite else scalar (c / d))"
  by (simp add: divide_tval_def scalar_def broadcast_to_def)

lemma kl_tab:
  "gaussian_kl_divergence (Val (tab s m), Val (tab s l)) (scalar 0, scalar 0)
     = Val (tab s (\<lambda>i. kl_elem (m i) (l i) 0 0))"
  by (simp add: gaussian_kl_divergence_def kl_elem_def plus_tval_def minus_tval_def div_tab_scalar
      tpow_def jnp_exp_def ew2_tab ew2_tab_scalar ew2_scalar_tab ew2_scalar_scalar tmap_tab tmap_scalar
      del: elementwise2.simps tmap.simps)

lemma log_prob_tab:
  "gaussian_log_probabilty (Val (tab s m), Val (tab s l)) (Val (tab s x))
     = Val (tab s (\<lambda>i. log_prob_elem (m i) (l i) (x i)))"
  by (simp add: gaussian_log_probabilty_def log_prob_elem_def times_tval_def minus_tval_def
      div_tab div_tab_scalar tpow_def jnp_exp_def jnp_log_def jnp_sqrt_def
      ew2_tab ew2_tab_scalar ew2_scalar_tab ew2_scalar_scalar tmap_tab tmap_scalar
      del: elementwise2.simps tmap.simps)

lemma sample_tab:
  "sample_gaussian nrm (Val (tab s m), Val (tab s l)) key
     = Val (tab s (\<lambda>i. reparam (m i) (l i) (nrm key s i)))"
  by (simp add: sample_gaussian_def reparam_def times_tval_def plus_tval_def div_tab_scalar
      jnp_exp_def jax_random_normal_tab ew2_tab ew2_tab_scalar tmap_tab add.commute mult.commute
      del: elementwise2.simps tmap.simps jax_random_normal.simps)

lemma zero_plus_jnp_sum: "scalar (0::real) + jnp_sum y = jnp_sum y"
  by (cases y) (simp_all add: plus_tval_def ew2_scalar_scalar, simp add: scalar_def)

lemma vae_loss_unfold:
  "vae_loss nrm (encoder, decoder) data key =
     (let q = jax_vmap encoder (Val data);
          z = sample_gaussian nrm q key;
          p = jax_vmap decoder z
      in (jnp_sum (- gaussian_log_probabilty p (Val data))
            + jnp_sum (gaussian_kl_divergence q (scalar 0, scalar 0)))
         / scalar (real (tsize data)))"
  by (simp add: vae_loss_def Let_def zero_plus_jnp_sum)

lemma vae_loss_contract:
  assumes wf: "wf_tensor data" and sh: "shape data = B # fs"
    and enc: "maps_shape fs ls encoder" and dec: "maps_shape ls fs decoder"
  shows "vae_loss nrm (encoder, decoder) data key
           = (if tsize data = 0 then Raise NonFinite
              else scalar (spec_vae_loss nrm (encoder, decoder) data key))"
proof -
  define QM where "QM = batched (\<lambda>x. fst (encoder x)) data"
  define QL where "QL = batched (\<lambda>x. snd (encoder x)) data"
  define Z where "Z = spec_latent_sample nrm encoder data key"
  define PM where "PM = batched (\<lambda>x. fst (decoder x)) Z"
  define PL where "PL = batched (\<lambda>x. snd (decoder x)) Z"
  have q: "jax_vmap encoder (Val data) = (Val QM, Val QL)"
    and sQM: "shape QM = B # ls" and sQL: "shape QL = B # ls"
    using jax_vmap_batched[OF wf sh enc] by (simp_all add: QM_def QL_def)
  have QM: "QM = tab (B # ls) (\<lambda>i. elems QM ! i)"
    using tensor_as_tab[of QM] sQM by (simp add: QM_def wf_batched)
  have QL: "QL = tab (B # ls) (\<lambda>i. elems QL ! i)"
    using tensor_as_tab[of QL] sQL by (simp add: QL_def wf_batched)
  have Z: "Z = tab (B # ls) (\<lambda>j. reparam (elems QM ! j) (elems QL ! j) (nrm key (B # ls) j))"
    by (simp add: Z_def spec_latent_sample_def Let_def QM_def[symmetric] QL_def[symmetric] sQM)
  have z: "sample_gaussian nrm (Val QM, Val QL) key = Val Z"
    by (subst QM, subst QL, subst Z) (rule sample_tab)
  have wfZ: "wf_tensor Z" and sZ: "shape Z = B # ls"
    by (subst Z, simp add: wf_tab) (subst Z, simp add: shape_tab)
  have p: "jax_vmap decoder (Val Z) = (Val PM, Val PL)"
    and sPM: "shape PM = B # fs" and sPL: "shape PL = B # fs"
    using jax_vmap_batched[OF wfZ sZ dec] by (simp_all add: PM_def PL_def)
  have PM: "PM = tab (B # fs) (\<lambda>i. elems PM ! i)"
    using tensor_as_tab[of PM] sPM by (simp add: PM_def wf_batched)
  have PL: "PL = tab (B # fs) (\<lambda>i. elems PL ! i)"
    using tensor_as_tab[of PL] sPL by (simp add: PL_def wf_batched)
  have D: "data = tab (B # fs) (\<lambda>i. elems data ! i)"
    using tensor_as_tab[OF wf] sh by simp
  have lp: "gaussian_log_probabilty (Val PM, Val PL) (Val data)
      = Val (tab (B # fs) (\<lambda>i. log_prob_elem (elems PM ! i) (elems PL ! i) (elems data ! i)))"
    by (subst PM, subst PL, subst D) (rule log_prob_tab)
  have kl: "gaussian_kl_divergence (Val QM, Val QL) (scalar 0, scalar 0)
      = Val (tab (B # ls) (\<lambda>i. kl_elem (elems QM ! i) (elems QL ! i) 0 0))"
    by (subst QM, subst QL) (rule kl_tab)
  have "vae_loss nrm (encoder, decoder) data key
      = (jnp_sum (- Val (tab (B # fs) (\<lambda>i. log_prob_elem (elems PM ! i) (elems PL ! i) (elems data ! i))))
           + jnp_sum (Val (tab (B # ls) (\<lambda>i. kl_elem (elems QM ! i) (elems QL ! i) 0 0))))
        / scalar (real (tsize data))"
    unfolding vae_loss_unfold Let_def q z p lp kl ..
  also have "\<dots> = scalar ((\<Sum>j<prod_list (B # fs). - log_prob_elem (elems PM ! j) (elems PL ! j) (elems data ! j))
                       + (\<Sum>j<prod_list (B # ls). kl_elem (elems QM ! j) (elems QL ! j) 0 0))
                    / scalar (real (tsize data))"
    by (simp only: uminus_tval_def tmap_tab jnp_sum_tab plus_tval_def ew2_scalar_scalar)
  also have "\<dots> = (if tsize data = 0 then Raise NonFinite
       else scalar (((\<Sum>j<prod_list (B # fs). - log_prob_elem (elems PM ! j) (elems PL ! j) (elems data ! j))
                       + (\<Sum>j<prod_list (B # ls). kl_elem (elems QM ! j) (elems QL ! j) 0 0))
                      / real (tsize data)))"
    by (simp only: div_scalar_scalar of_nat_eq_0_iff)
  also have "\<dots> = (if tsize data = 0 then Raise NonFinite
       else scalar (spec_vae_loss nrm (encoder, decoder) data key))"
    by (simp add: spec_vae_loss_def Let_def QM_def[symmetric] QL_def[symmetric] Z_def[symmetric]
        PM_def[symmetric] PL_def[symmetric] tsize_def sh sQM)
  finally show ?thesis .
qed

lemma sum_blocks:
  fixes g :: "nat \<Rightarrow> real" and n k :: nat
  shows "(\<Sum>j<n * k. g j) = (\<Sum>r<n. \<Sum>c<k. g (r * k + c))"
proof -
  have "(\<Sum>r<n. \<Sum>c<k. g (r * k + c)) = (\<Sum>r<n. sum g {r * k..<r * k + k})"
  proof (rule sum.cong[OF refl])
    fix r :: nat
    have "sum g {0 + r * k..<k + r * k} = (\<Sum>c = 0..<k. g (c + r * k))"
      by (rule sum.shift_bounds_nat_ivl)
    then show "(\<Sum>c<k. g (r * k + c)) = sum g {r * k..<r * k + k}"
      by (simp add: atLeast0LessThan add.commute)
  qed
  also have "\<dots> = sum g {..<n * k}"
    by (rule sum.nat_group)
  finally show ?thesis by simp
qed

lemma length_rows: "shape t = n # s \<Longrightarrow> length (rows t) = n"
  by (simp add: rows_def)

lemma rows_nth:
  assumes "wf_tensor t" "shape t = n # s" "r < n"
  shows "rows t ! r = tab s (\<lambda>c. elems t ! (r * prod_list s + c))"
proof -
  have "t = tab (n # s) (\<lambda>i. elems t ! i)"
    using tensor_as_tab[OF assms(1)] assms(2) by simp
  then have "rows t = map (\<lambda>r. tab s (\<lambda>c. elems t ! (r * prod_list s + c))) [0..<n]"
    using rows_tab[of n s "\<lambda>i. elems t ! i"] by simp
  then show ?thesis using assms(3) by simp
qed

lemma rows_nth_wf:
  assumes "wf_tensor t" "shape t = n # s" "r < n"
  shows "wf_tensor (rows t ! r)" and "shape (rows t ! r) = s" and "tsize (rows t ! r) = prod_list s"
  by (simp_all add: rows_nth[OF assms] wf_tab shape_tab tsize_tab)

lemma elems_rows_nth:
  assumes "wf_tensor t" "shape t = n # s" "r < n" "c < prod_list s"
  shows "elems (rows t ! r) ! c = elems t ! (r * prod_list s + c)"
  by (simp add: rows_nth[OF assms(1-3)] elems_tab_nth[OF assms(4)])

lemma block_index:
  assumes "r < n" "c < k"
  shows "r * k + c < n * (k::nat)" and "(r * k + c) div k = r" and "(r * k + c) mod k = c"
proof -
  have "Suc r \<le> n" using assms(1) by simp
  then have "Suc r * k \<le> n * k" by (rule mult_le_mono1)
  then show "r * k + c < n * k" using assms(2) by simp
  show "(r * k + c) div k = r" using assms(2) by simp
  show "(r * k + c) mod k = c" using assms(2) by simp
qed

lemma batched_nth:
  assumes wf: "wf_tensor t" and sh: "shape t = n # s" and f: "maps_shape s s' f"
    and r: "r < n" and c: "c < prod_list s'"
  shows "elems (batched (\<lambda>x. fst (f x)) t) ! (r * prod_list s' + c) = elems (fst (f (rows t ! r))) ! c"
    and "elems (batched (\<lambda>x. snd (f x)) t) ! (r * prod_list s' + c) = elems (snd (f (rows t ! r))) ! c"
proof -
  have ex: "rows t ! r = example t r"
    using r by (simp add: rows_example[OF wf sh])
  have g: "gaussian_shaped s' (f (example t 0))"
    using f example_wf(1,2)[OF sh] unfolding maps_shape_def by blast
  have k1: "tsize (fst (f (example t 0))) = prod_list s'" and k2: "tsize (snd (f (example t 0))) = prod_list s'"
    and s1: "shape (fst (f (example t 0))) = s'" and s2: "shape (snd (f (example t 0))) = s'"
    using g by (simp_all add: gaussian_shaped_def tsize_def)
  note bi = block_index[OF r c]
  show "elems (batched (\<lambda>x. fst (f x)) t) ! (r * prod_list s' + c) = elems (fst (f (rows t ! r))) ! c"
    unfolding batched_def Let_def k1 s1 ex
    using bi by (simp add: elems_tab_nth sh)
  show "elems (batched (\<lambda>x. snd (f x)) t) ! (r * prod_list s' + c) = elems (snd (f (rows t ! r))) ! c"
    unfolding batched_def Let_def k2 s2 ex
    using bi by (simp add: elems_tab_nth sh)
qed

lemma spec_vae_loss_examples:
  assumes wf: "wf_tensor data" and sh: "shape data = B # fs" and B: "0 < B"
    and enc: "maps_shape fs ls encoder" and dec: "maps_shape ls fs decoder"
  shows "spec_vae_loss nrm (encoder, decoder) data key =
           (\<Sum>r<B. example_loss encoder decoder ls (rows data ! r)
                      (\<lambda>c. nrm key (B # ls) (r * prod_list ls + c)))
           / real (B * prod_list fs)"
proof -
  define L where "L = prod_list ls"
  define F where "F = prod_list fs"
  define QM where "QM = batched (\<lambda>x. fst (encoder x)) data"
  define QL where "QL = batched (\<lambda>x. snd (encoder x)) data"
  define Z where "Z = spec_latent_sample nrm encoder data key"
  define PM where "PM = batched (\<lambda>x. fst (decoder x)) Z"
  define PL where "PL = batched (\<lambda>x. snd (decoder x)) Z"
  define x where "x r = rows data ! r" for r
  define z where "z r = tab ls (\<lambda>c. reparam (elems (fst (encoder (x r))) ! c)
      (elems (snd (encoder (x r))) ! c) (nrm key (B # ls) (r * L + c)))" for r
  have sQM: "shape QM = B # ls"
    using jax_vmap_batched(2)[OF wf sh enc] by (simp add: QM_def)
  have Z: "Z = tab (B # ls) (\<lambda>j. reparam (elems QM ! j) (elems QL ! j) (nrm key (B # ls) j))"
    by (simp add: Z_def spec_latent_sample_def Let_def QM_def[symmetric] QL_def[symmetric] sQM)
  have wfZ: "wf_tensor Z" and sZ: "shape Z = B # ls"
    by (subst Z, simp add: wf_tab) (subst Z, simp add: shape_tab)
  have qm: "elems QM ! (r * L + c) = elems (fst (encoder (x r))) ! c"
    and ql: "elems QL ! (r * L + c) = elems (snd (encoder (x r))) ! c" if "r < B" "c < L" for r c
    using batched_nth[OF wf sh enc that(1), of c] that(2)
    by (simp_all add: QM_def QL_def x_def L_def)
  have rowZ: "rows Z ! r = z r" if "r < B" for r
  proof -
    have "rows Z ! r = tab ls (\<lambda>c. elems Z ! (r * L + c))"
      using rows_nth[OF wfZ sZ that] by (simp add: L_def)
    also have "\<dots> = z r"
      unfolding z_def
    proof (rule tab_cong)
      fix c assume c: "c < prod_list ls"
      then have cL: "c < L" by (simp add: L_def)
      have "r * L + c < prod_list (B # ls)"
        using block_index(1)[OF that cL] by (simp add: L_def)
      then have "elems Z ! (r * L + c)
          = reparam (elems QM ! (r * L + c)) (elems QL ! (r * L + c)) (nrm key (B # ls) (r * L + c))"
        by (subst Z) (rule elems_tab_nth)
      then show "elems Z ! (r * L + c) = reparam (elems (fst (encoder (x r))) ! c)
          (elems (snd (encoder (x r))) ! c) (nrm key (B # ls) (r * L + c))"
        by (simp only: qm[OF that cL] ql[OF that cL])
    qed
    finally show ?thesis .
  qed
  have pm: "elems PM ! (r * F + c) = elems (fst (decoder (z r))) ! c"
    and pl: "elems PL ! (r * F + c) = elems (snd (decoder (z r))) ! c" if "r < B" "c < F" for r c
    using batched_nth[OF wfZ sZ dec that(1), of c] that(2) rowZ[OF that(1)]
    by (simp_all add: PM_def PL_def F_def)
  have xd: "elems data ! (r * F + c) = elems (x r) ! c" if "r < B" "c < F" for r c
    using elems_rows_nth[OF wf sh that(1), of c] that(2) by (simp add: x_def F_def)
  have tx: "tsize (x r) = F" if "r < B" for r
    using rows_nth_wf(3)[OF wf sh that] by (simp add: x_def F_def)
  have S1: "(\<Sum>j<B * F. - log_prob_elem (elems PM ! j) (elems PL ! j) (elems data ! j))
      = (\<Sum>r<B. \<Sum>c<F. - log_prob_elem (elems (fst (decoder (z r))) ! c)
            (elems (snd (decoder (z r))) ! c) (elems (x r) ! c))"
    unfolding sum_blocks
    by (intro sum.cong refl) (simp add: pm pl xd)
  have S2: "(\<Sum>j<B * L. kl_elem (elems QM ! j) (elems QL ! j) 0 0)
      = (\<Sum>r<B. \<Sum>c<L. kl_elem (elems (fst (encoder (x r))) ! c) (elems (snd (encoder (x r))) ! c) 0 0)"
    unfolding sum_blocks
    by (intro sum.cong refl) (simp add: qm ql)
  have ex: "example_loss encoder decoder ls (x r) (\<lambda>c. nrm key (B # ls) (r * L + c))
      = (\<Sum>c<F. - log_prob_elem (elems (fst (decoder (z r))) ! c)
            (elems (snd (decoder (z r))) ! c) (elems (x r) ! c))
        + (\<Sum>c<L. kl_elem (elems (fst (encoder (x r))) ! c) (elems (snd (encoder (x r))) ! c) 0 0)"
    if "r < B" for r
    by (simp add: example_loss_def Let_def z_def tx[OF that] L_def)
  have "spec_vae_loss nrm (encoder, decoder) data key
      = ((\<Sum>j<B * F. - log_prob_elem (elems PM ! j) (elems PL ! j) (elems data ! j))
          + (\<Sum>j<B * L. kl_elem (elems QM ! j) (elems QL ! j) 0 0)) / real (B * F)"
    by (simp add: spec_vae_loss_def Let_def QM_def[symmetric] QL_def[symmetric] Z_def[symmetric]
        PM_def[symmetric] PL_def[symmetric] tsize_def sh sQM L_def F_def)
  also have "\<dots> = (\<Sum>r<B. example_loss encoder decoder ls (x r) (\<lambda>c. nrm key (B # ls) (r * L + c)))
      / real (B * F)"
    unfolding S1 S2 by (simp add: ex sum.distrib)
  finally show ?thesis by (simp add: x_def L_def F_def)
qed

lemma example_loss_cong:
  assumes "\<And>c. c < prod_list ls \<Longrightarrow> e c = e' c"
  shows "example_loss encoder decoder ls x e = example_loss encoder decoder ls x e'"
proof -
  have "tab ls (\<lambda>c. reparam (elems (fst (encoder x)) ! c) (elems (snd (encoder x)) ! c) (e c))
      = tab ls (\<lambda>c. reparam (elems (fst (encoder x)) ! c) (elems (snd (encoder x)) ! c) (e' c))"
    by (rule tab_cong) (simp add: assms)
  then show ?thesis by (simp add: example_loss_def Let_def)
qed

lemma is_permutation_props:
  assumes "is_permutation perm n"
  shows "length perm = n" and "\<And>r. r < n \<Longrightarrow> perm ! r < n"
proof -
  have m: "mset perm = mset [0..<n]" using assms by (simp add: is_permutation_def)
  show len: "length perm = n" using mset_eq_length[OF m] by simp
  fix r assume "r < n"
  then have "perm ! r \<in> set perm" using len by simp
  moreover have "set perm = set [0..<n]" using mset_eq_setD[OF m] .
  ultimately show "perm ! r < n" by simp
qed

lemma sum_permutation:
  fixes T :: "nat \<Rightarrow> real"
  assumes "is_permutation perm n"
  shows "(\<Sum>r<n. T (perm ! r)) = (\<Sum>r<n. T r)"
proof -
  have m: "mset perm = mset [0..<n]" using assms by (simp add: is_permutation_def)
  have len: "length perm = n" using is_permutation_props(1)[OF assms] .
  have "(\<Sum>r<n. T (perm ! r)) = sum_list (map T perm)"
    using len by (simp add: sum_list_sum_nth atLeast0LessThan)
  also have "\<dots> = sum_mset (mset (map T perm))"
    by (simp only: sum_mset_sum_list)
  also have "\<dots> = sum_mset (mset (map T [0..<n]))"
    by (simp only: mset_map m)
  also have "\<dots> = sum_list (map T [0..<n])"
    by (simp only: sum_mset_sum_list)
  also have "\<dots> = (\<Sum>r<n. T r)"
    by (simp add: sum_list_sum_nth atLeast0LessThan)
  finally show ?thesis .
qed

lemma permute_examples_rows:
  assumes wf: "wf_tensor t" and sh: "shape t = n # s" and p: "is_permutation perm n"
  shows "wf_tensor (permute_examples perm t)"
    and "shape (permute_examples perm t) = n # s"
    and "\<And>r. r < n \<Longrightarrow> rows (permute_examples perm t) ! r = rows t ! (perm ! r)"
proof -
  define f where "f i = elems (rows t ! i)" for i
  note len = is_permutation_props(1)[OF p]
  note lt = is_permutation_props(2)[OF p]
  have lf: "length (f (perm ! j)) = prod_list s" if "j < n" for j
    using rows_nth_wf(1,2)[OF wf sh lt[OF that]] by (simp add: f_def wf_tensor_def)
  have "map f perm = map (\<lambda>r. f (perm ! r)) [0..<n]"
    using len by (simp add: list_eq_iff_nth_eq)
  then have pe: "permute_examples perm t = Tensor (n # s) (concat (map (\<lambda>r. f (perm ! r)) [0..<n]))"
    by (simp add: permute_examples_def f_def[abs_def] len sh)
  show "wf_tensor (permute_examples perm t)"
    using length_concat_const[of n "\<lambda>r. f (perm ! r)" "prod_list s"] lf
    by (simp add: pe wf_tensor_def)
  show "shape (permute_examples perm t) = n # s" by (simp add: pe)
  fix r assume r: "r < n"
  have "chunk (prod_list s) r (concat (map (\<lambda>r. f (perm ! r)) [0..<n])) = f (perm ! r)"
    using chunk_concat_map[OF r, of "\<lambda>r. f (perm ! r)" "prod_list s"] lf by simp
  then have "rows (permute_examples perm t) ! r = Tensor s (elems (rows t ! (perm ! r)))"
    using r by (simp add: pe rows_def f_def)
  moreover have "shape (rows t ! (perm ! r)) = s"
    using rows_nth_wf(2)[OF wf sh lt[OF r]] .
  ultimately show "rows (permute_examples perm t) ! r = rows t ! (perm ! r)"
    by (cases "rows t ! (perm ! r)") simp
qed

lemma vae_loss_permuted:
  assumes wf: "wf_tensor data" and sh: "shape data = B # fs" and B: "0 < B"
    and enc: "maps_shape fs ls encoder" and dec: "maps_shape ls fs decoder"
    and p: "is_permutation perm B"
  shows "vae_loss (permute_draw perm nrm) (encoder, decoder) (permute_examples perm data) key
           = vae_loss nrm (encoder, decoder) data key"
proof -
  define L where "L = prod_list ls"
  define T where "T r = example_loss encoder decoder ls (rows data ! r)
      (\<lambda>c. nrm key (B # ls) (r * L + c))" for r
  note pe = permute_examples_rows[OF wf sh p]
  note lt = is_permutation_props(2)[OF p]
  have "example_loss encoder decoder ls (rows (permute_examples perm data) ! r)
          (\<lambda>c. permute_draw perm nrm key (B # ls) (r * L + c)) = T (perm ! r)" if r: "r < B" for r
    unfolding T_def pe(3)[OF r]
  proof (rule example_loss_cong)
    fix c assume "c < prod_list ls"
    then have c: "c < L" by (simp add: L_def)
    show "permute_draw perm nrm key (B # ls) (r * L + c) = nrm key (B # ls) (perm ! r * L + c)"
      using block_index(2,3)[OF r c] by (simp add: permute_draw_def L_def)
  qed
  then have "(\<Sum>r<B. example_loss encoder decoder ls (rows (permute_examples perm data) ! r)
          (\<lambda>c. permute_draw perm nrm key (B # ls) (r * L + c))) = (\<Sum>r<B. T (perm ! r))"
    by (intro sum.cong refl) simp
  also have "\<dots> = (\<Sum>r<B. T r)"
    by (rule sum_permutation[OF p])
  finally have "spec_vae_loss (permute_draw perm nrm) (encoder, decoder) (permute_examples perm data) key
      = spec_vae_loss nrm (encoder, decoder) data key"
    unfolding spec_vae_loss_examples[OF pe(1) pe(2) B enc dec]
      spec_vae_loss_examples[OF wf sh B enc dec]
    by (simp add: T_def L_def)
  then show ?thesis
    unfolding vae_loss_contract[OF pe(1) pe(2) enc dec] vae_loss_contract[OF wf sh enc dec]
    by (simp add: tsize_def pe(2) sh)
qed

lemma maps_shape_identity_net: "maps_shape s s identity_net"
  by (simp add: maps_shape_def gaussian_shaped_def identity_net_def wf_tensor_def)

lemma maps_shape_doubling_net: "maps_shape s s doubling_net"
  by (simp add: maps_shape_def gaussian_shaped_def doubling_net_def wf_tensor_def)

lemma example_loss_demo:
  "example_loss identity_net doubling_net [1] (Tensor [1] [a]) e
     = (a + 2 * e 0)\<^sup>2 / 2 + ln (sqrt (2 * pi)) + a\<^sup>2 / 2"
proof -
  have "example_loss identity_net doubling_net [1] (Tensor [1] [a]) e
      = - log_prob_elem (2 * reparam a 0 (e 0)) 0 a + kl_elem a 0 0 0"
    by (simp add: example_loss_def identity_net_def doubling_net_def tab_def tsize_def)
  also have "\<dots> = (a + 2 * e 0)\<^sup>2 / 2 + ln (sqrt (2 * pi)) + a\<^sup>2 / 2"
    by (simp add: log_prob_elem_def kl_elem_def reparam_def power2_eq_square field_simps)
  finally show ?thesis .
qed

lemma rows_pair: "rows (Tensor [2, 1] [a, b]) = [Tensor [1] [a], Tensor [1] [b]]"
  by (simp add: rows_def chunk_def upt_rec)

lemma spec_vae_loss_demo:
  "spec_vae_loss nrm (identity_net, doubling_net) (Tensor [2, 1] [a, b]) key
     = ((a + 2 * nrm key [2, 1] 0)\<^sup>2 / 2 + ln (sqrt (2 * pi)) + a\<^sup>2 / 2
                + ((b + 2 * nrm key [2, 1] 1)\<^sup>2 / 2 + ln (sqrt (2 * pi)) + b\<^sup>2 / 2)) / 2"
proof -
  have wf: "wf_tensor (Tensor [2, 1] [a, b])" by (simp add: wf_tensor_def)
  have sh: "shape (Tensor [2, 1] [a, b]) = 2 # [1]" by simp
  have "spec_vae_loss nrm (identity_net, doubling_net) (Tensor [2, 1] [a, b]) key
      = (\<Sum>r<2. example_loss identity_net doubling_net [1] (rows (Tensor [2, 1] [a, b]) ! r)
                      (\<lambda>c. nrm key (2 # [1]) (r * prod_list [1] + c)))
           / real (2 * prod_list [1])"
    by (rule spec_vae_loss_examples[OF wf sh _ maps_shape_identity_net maps_shape_doubling_net]) simp
  also have "\<dots> = ((a + 2 * nrm key [2, 1] 0)\<^sup>2 / 2 + ln (sqrt (2 * pi)) + a\<^sup>2 / 2
                + ((b + 2 * nrm key [2, 1] 1)\<^sup>2 / 2 + ln (sqrt (2 * pi)) + b\<^sup>2 / 2)) / 2"
  proof -
    have two: "(\<Sum>r<2. g r) = g 0 + g 1" for g :: "nat \<Rightarrow> real"
      by (simp add: lessThan_Suc numeral_2_eq_2)
    show ?thesis
      unfolding two by (simp add: rows_pair[simplified] example_loss_demo[simplified])
  qed
  finally show ?thesis .
qed

lemma vae_loss_demo:
  "vae_loss nrm (identity_net, doubling_net) (Tensor [2, 1] [a, b]) key
     = scalar (((a + 2 * nrm key [2, 1] 0)\<^sup>2 / 2 + ln (sqrt (2 * pi)) + a\<^sup>2 / 2
                + ((b + 2 * nrm key [2, 1] 1)\<^sup>2 / 2 + ln (sqrt (2 * pi)) + b\<^sup>2 / 2)) / 2)"
proof -
  have wf: "wf_tensor (Tensor [2, 1] [a, b])" by (simp add: wf_tensor_def)
  have sh: "shape (Tensor [2, 1] [a, b]) = 2 # [1]" by simp
  have "vae_loss nrm (identity_net, doubling_net) (Tensor [2, 1] [a, b]) key
      = scalar (spec_vae_loss nrm (identity_net, doubling_net) (Tensor [2, 1] [a, b]) key)"
    unfolding vae_loss_contract[OF wf sh maps_shape_identity_net maps_shape_doubling_net]
    by (simp add: tsize_def)
  then show ?thesis by (simp only: spec_vae_loss_demo)
qed



lemma permute_pair: "permute_examples [1, 0] (Tensor [2, 1] [a, b]) = Tensor [2, 1] [b, a]"
  by (simp add: permute_examples_def rows_pair[simplified])

lemma is_permutation_swap: "is_permutation [1, 0] 2"
  by (simp add: is_permutation_def upt_rec)

text \<open>
  Claim C2, as stated: permuting the examples of a batch leaves \<open>vae_loss\<close> unchanged.
  It fails. The noise of the latent draw is fixed by the key and the shape, so after
  a permutation each example meets the noise row of another example. For the batch
  \<open>[[0], [1]]\<close>, a draw whose two rows are 0 and 1, the identity-like encoder and the
  doubling decoder, the loss is \<open>(5 + 2 c) / 2\<close> and after swapping the two examples
  \<open>(3 + 2 c) / 2\<close>, with \<open>c = ln (sqrt (2 pi))\<close>.
\<close>

theorem vae_loss_permutation_counterexample:
  "is_permutation [1, 0] 2
   \<and> vae_loss (\<lambda>k s i. real i) (identity_net, doubling_net) (Tensor [2, 1] [0, 1]) ()
       = scalar ((5 + 2 * ln (sqrt (2 * pi))) / 2)
   \<and> vae_loss (\<lambda>k s i. real i) (identity_net, doubling_net)
         (permute_examples [1, 0] (Tensor [2, 1] [0, 1])) ()
       = scalar ((3 + 2 * ln (sqrt (2 * pi))) / 2)
   \<and> vae_loss (\<lambda>k s i. real i) (identity_net, doubling_net)
         (permute_examples [1, 0] (Tensor [2, 1] [0, 1])) ()
       \<noteq> vae_loss (\<lambda>k s i. real i) (identity_net, doubling_net) (Tensor [2, 1] [0, 1]) ()"
proof -
  have a: "vae_loss (\<lambda>k s i. real i) (identity_net, doubling_net) (Tensor [2, 1] [0, 1]) ()
       = scalar ((5 + 2 * ln (sqrt (2 * pi))) / 2)"
    unfolding vae_loss_demo by (simp add: power2_eq_square add.commute)
  have b: "vae_loss (\<lambda>k s i. real i) (identity_net, doubling_net)
         (permute_examples [1, 0] (Tensor [2, 1] [0, 1])) ()
       = scalar ((3 + 2 * ln (sqrt (2 * pi))) / 2)"
    unfolding permute_pair vae_loss_demo by (simp add: power2_eq_square add.commute)
  have "scalar ((3 + 2 * ln (sqrt (2 * pi))) / 2) \<noteq> scalar ((5 + 2 * ln (sqrt (2 * pi))) / 2)"
    by (simp add: scalar_def)
  then show ?thesis using a b is_permutation_swap by simp
qed

text \<open>
  Claim C2, amended. For a model that keeps the shape contract and a non-empty batch,
  permuting the examples of the batch together with the rows of the standard-normal
  draw leaves \<open>vae_loss\<close> unchanged: the objective is a sum over the pairs of an example
  and its noise. The arithmetic is that of the real numbers.
\<close>

theorem vae_loss_permutation_invariant:
  assumes "wf_tensor data" and "shape data = B # fs" and "0 < B"
    and "maps_shape fs ls encoder" and "maps_shape ls fs decoder"
    and "is_permutation perm B"
  shows "vae_loss (permute_draw perm nrm) (encoder, decoder) (permute_examples perm data) key
           = vae_loss nrm (encoder, decoder) data key"
  using assms by (rule vae_loss_permuted)

theorem vae_loss_permutation_invariant_witness:
  "vae_loss (permute_draw [1, 0] (\<lambda>k s i. real i)) (identity_net, doubling_net)
       (permute_examples [1, 0] (Tensor [2, 1] [0, 1])) ()
     = vae_loss (\<lambda>k s i. real i) (identity_net, doubling_net) (Tensor [2, 1] [0, 1]) ()"
  by (rule vae_loss_permutation_invariant[of _ 2 "[1]" "[1]"])
     (simp_all add: wf_tensor_def maps_shape_identity_net maps_shape_doubling_net is_permutation_swap[simplified])

lemma dirname_metrics: "dirname ''metrics/loss.txt'' = ''metrics''"
  by (simp add: dirname_def)

lemma ancestors_metrics: "ancestors ''metrics'' = []"
  by code_simp

lemma small_loss:
  "train_loss small_library vae (Tensor [1, 1] [0]) key
     = Val (Tensor [] [spec_vae_loss (\<lambda>k s i. 0) (identity_net, identity_net) (Tensor [1, 1] [0]) key])"
proof -
  have "vae_loss (\<lambda>k s i. 0) (identity_net, identity_net) (Tensor [1, 1] [0]) key
      = scalar (spec_vae_loss (\<lambda>k s i. 0) (identity_net, identity_net) (Tensor [1, 1] [0]) key)"
    using vae_loss_contract[of "Tensor [1, 1] [0]" 1 "[1]" "[1]" identity_net identity_net]
    by (simp add: wf_tensor_def tsize_def maps_shape_identity_net)
  then show ?thesis by (simp add: train_loss_def small_library_def scalar_def)
qed

lemma small_optimizer_update:
  "t_update (train_optimizer small_library cfg) g [(), (), ()] = (g, [(), (), ()])"
  by (simp add: train_optimizer_def optax_chain_def small_library_def unit_transformation_def)

lemma small_update_state:
  "update_state small_library (m, [(), (), ()], k, i) (Tensor [1, 1] [0])
       (train_optimizer small_library cfg) (train_loss small_library)
     = Inr (Val (Tensor [] [spec_vae_loss (\<lambda>k s i. 0) (identity_net, identity_net) (Tensor [1, 1] [0]) (2 * k + 1)]),
            (m, [(), (), ()], 2 * k, i + 1))"
proof -
  have sp: "jax_random_split small_library k = (2 * k, 2 * k + 1)"
    by (simp add: small_library_def)
  have g: "jax_grad small_library f m d key = m" for f d key
    by (simp add: small_library_def)
  have a: "apply_updates small_library m u = m" for u
    by (simp add: small_library_def)
  show ?thesis
    unfolding update_state_def by (simp add: sp small_loss[simplified] small_optimizer_update g a)
qed

lemma small_body:
  assumes "c \<noteq> 0"
  shows "train_body small_library (small_config c) (\<lambda>i. Some (Tensor [1, 1] [0])) (w, pos, (m, [(), (), ()], k, i))
     = Inr ((if (i + 1) mod c = c - 1
             then (save_checkpoint (m, [(), (), ()], 2 * k, i + 1) (''ckpt'', i + 2, ''vae'')
                     (flush ''metrics/loss.txt'' (''0.9189385'' @ [CHR 0x0A]) w))
                  \<lparr>console := console w @ [''---------CHECKPOINT SAVED----------'']\<rparr>
             else flush ''metrics/loss.txt'' (''0.9189385'' @ [CHR 0x0A]) w),
            Suc pos, (m, [(), (), ()], 2 * k, i + 1))"
proof -
  have f: "format_loss small_library l = ''0.9189385''" for l
    by (simp add: small_library_def)
  have c: "ckpt_interval (small_config c) = c" "metrics_path (small_config c) = ''metrics/loss.txt''"
    "ckpt_dir (small_config c) = ''ckpt''"
    by (simp_all add: small_config_def)
  show ?thesis
    unfolding train_body_def
    using assms by (simp add: small_update_state[simplified] f c ckpt_path_def save_checkpoint_def flush_def Let_def add.commute)
qed

lemma update_state_iteration:
  "update_state lib st data opt f = Inr (loss, st') \<Longrightarrow> snd (snd (snd st')) = snd (snd (snd st)) + 1"
  by (auto simp: update_state_def Let_def split: prod.splits option.splits)





lemma small_config_sel:
  "metrics_path (small_config c) = ''metrics/loss.txt''" "ckpt_interval (small_config c) = c"
  "data_dir (small_config c) = ''videos''" "bs (small_config c) = 1" "seed (small_config c) = 0"
  by (simp_all add: small_config_def)

lemma small_frames: "frame_extractor small_library d b k = (\<lambda>i. Some (Tensor [1, 1] [0]))"
  by (simp add: small_library_def)

lemma small_initial_fresh:
  "initial_state small_library None (small_config c) w = Inr (((), ()), [(), (), ()], 1, 0)"
  by (simp add: initial_state_def make_vae_def train_optimizer_def optax_chain_def
      small_library_def unit_transformation_def small_config_def)

lemma small_initial_resume:
  "initial_state small_library (Some 2) (small_config c) earlier_world
     = Inr (((), ()), [(), (), ()], 2, 1)"
  by (simp add: initial_state_def load_checkpoint_def earlier_world_def)

lemma small_start_fresh:
  "train_start small_library None (small_config c) empty_world
     = Inr (\<lparr> dirs = {''metrics''}, files = [''metrics/loss.txt'' \<mapsto> []], checkpoints = [], console = [] \<rparr>,
            (((), ()), [(), (), ()], 1, 0))"
  unfolding train_start_def small_initial_fresh
  by (simp add: small_config_sel dirname_metrics ancestors_metrics path_exists_def makedirs_def open_w_def empty_world_def)

lemma small_start_resume:
  "train_start small_library (Some 2) (small_config c) earlier_world
     = Inr (earlier_world\<lparr>files := [''metrics/loss.txt'' \<mapsto> []]\<rparr>, (((), ()), [(), (), ()], 2, 1))"
  unfolding train_start_def small_initial_resume
  by (simp add: small_config_sel dirname_metrics ancestors_metrics path_exists_def makedirs_def open_w_def earlier_world_def)


lemma train_loop_numeral:
  "train_loop lib cfg fe (numeral v) s =
     (case train_body lib cfg fe s of Inl e \<Rightarrow> Inl e | Inr s' \<Rightarrow> train_loop lib cfg fe (pred_numeral v) s')"
  by (simp add: numeral_eq_Suc)

lemma small_run_interval_1:
  "train small_library None (small_config 1) empty_world 1
     = Inr (\<lparr> dirs = {''metrics''},
              files = [''metrics/loss.txt'' \<mapsto> ''0.9189385'' @ [CHR 0x0A]],
              checkpoints = [((''ckpt'', 2, ''vae''), (((), ()), [(), (), ()], 2, 1))],
              console = [''---------CHECKPOINT SAVED----------''] \<rparr>,
            1, (((), ()), [(), (), ()], 2, 1))"
  by (simp add: train_def small_start_fresh small_frames small_config_sel small_body[simplified]
      save_checkpoint_def flush_def)

lemma small_run_interval_2:
  "train small_library None (small_config 2) empty_world 1 = Inr (earlier_world, 1, (((), ()), [(), (), ()], 2, 1))"
  by (simp add: train_def small_start_fresh small_frames small_config_sel small_body[simplified]
      save_checkpoint_def flush_def earlier_world_def)

lemma small_run_resumed:
  "train small_library (Some 2) (small_config 2) earlier_world 3
     = Inr (\<lparr> dirs = {''metrics''},
              files = [''metrics/loss.txt'' \<mapsto>
                         ''0.9189385'' @ [CHR 0x0A] @ ''0.9189385'' @ [CHR 0x0A] @ ''0.9189385'' @ [CHR 0x0A]],
              checkpoints = [((''ckpt'', 4, ''vae''), (((), ()), [(), (), ()], 8, 3)),
                             ((''ckpt'', 2, ''vae''), (((), ()), [(), (), ()], 2, 1))],
              console = [''---------CHECKPOINT SAVED----------'', ''---------CHECKPOINT SAVED----------''] \<rparr>,
            3, (((), ()), [(), (), ()], 16, 4))"
  unfolding train_def small_start_resume
  by (simp add: small_frames small_config_sel train_loop_numeral
      small_body[simplified] save_checkpoint_def flush_def earlier_world_def)





text \<open>
  Claim C4, at the checkpoint interval 1. A fresh run of one iteration persists one
  checkpoint; its tag carries the iteration number 2, not 1, and the state in it
  has the iteration counter 1. The update step has already incremented the counter
  when the loop reads it, and the loop adds one more for the tag.
\<close>

theorem checkpoint_interval_1_run:
  "saved_tags (final_world (train small_library None (small_config 1) empty_world 1)) = [2]
   \<and> saved_iterations (final_world (train small_library None (small_config 1) empty_world 1)) = [1]
   \<and> final_iteration (train small_library None (small_config 1) empty_world 1) = Some 1"
  unfolding small_run_interval_1
  by (simp add: final_world_def final_iteration_def saved_tags_def saved_iterations_def)

text \<open>
  Claim C5, at \<open>N = 2\<close> and \<open>K = 3\<close>. A fresh run with checkpoint interval 2 persists,
  in its first iteration, the checkpoint tagged 2; the state in it has the iteration
  counter 1. A run resumed from checkpoint 2 has, after 3 more iterations, the
  iteration counter 4, not 5.
\<close>

theorem resume_from_checkpoint_run:
  "final_world (train small_library None (small_config 2) empty_world 1) = earlier_world
   \<and> saved_tags earlier_world = [2]
   \<and> saved_iterations earlier_world = [1]
   \<and> final_iteration (train small_library (Some 2) (small_config 2) earlier_world 3) = Some 4"
  unfolding small_run_interval_2 small_run_resumed
  by (simp add: final_world_def final_iteration_def)
     (simp add: saved_tags_def saved_iterations_def earlier_world_def)

lemma jax_random_normal_cong:
  "nrm' k = nrm k \<Longrightarrow> jax_random_normal nrm' k a = jax_random_normal nrm k a"
  by (cases a) simp_all

lemma sample_gaussian_cong:
  assumes "nrm' k = nrm k"
  shows "sample_gaussian nrm' p k = sample_gaussian nrm p k"
proof -
  have "jax_random_normal nrm' k a = jax_random_normal nrm k a" for a
    using assms by (rule jax_random_normal_cong)
  then show ?thesis
    by (simp add: sample_gaussian_def split: prod.splits)
qed

lemma jnp_zeros_tab: "jnp_zeros s = Val (tab s (\<lambda>i. 0))"
  by (simp add: jnp_zeros_def tab_def map_replicate_const)

lemma sample_vae_contract:
  assumes sp: "split key = (z_key, x_key)" and dec: "maps_shape [n_lat] fs decoder"
  shows "sample_vae nrm split n_lat n_samples (encoder, decoder) key
           = Val (spec_sample_vae nrm z_key x_key n_lat n_samples decoder)"
proof -
  define Z where "Z = tab [n_samples, n_lat] (nrm z_key [n_samples, n_lat])"
  define PM where "PM = batched (\<lambda>x. fst (decoder x)) Z"
  define PL where "PL = batched (\<lambda>x. snd (decoder x)) Z"
  have z: "sample_gaussian nrm (jnp_zeros [n_samples, n_lat], jnp_zeros [n_samples, n_lat]) z_key = Val Z"
    unfolding jnp_zeros_tab sample_tab Z_def by (simp add: reparam_def)
  have wfZ: "wf_tensor Z" and sZ: "shape Z = n_samples # [n_lat]"
    by (simp_all add: Z_def wf_tab shape_tab)
  have p: "jax_vmap decoder (Val Z) = (Val PM, Val PL)"
    and sPM: "shape PM = n_samples # fs" and sPL: "shape PL = n_samples # fs"
    using jax_vmap_batched[OF wfZ sZ dec] by (simp_all add: PM_def PL_def)
  have PM: "PM = tab (n_samples # fs) (\<lambda>i. elems PM ! i)"
    using tensor_as_tab[of PM] sPM by (simp add: PM_def wf_batched)
  have PL: "PL = tab (n_samples # fs) (\<lambda>i. elems PL ! i)"
    using tensor_as_tab[of PL] sPL by (simp add: PL_def wf_batched)
  have x: "sample_gaussian nrm (Val PM, Val PL) x_key
      = Val (tab (n_samples # fs) (\<lambda>j. reparam (elems PM ! j) (elems PL ! j) (nrm x_key (n_samples # fs) j)))"
    by (subst PM, subst PL) (rule sample_tab)
  have "sample_vae nrm split n_lat n_samples (encoder, decoder) key
      = sample_gaussian nrm (jax_vmap decoder
          (sample_gaussian nrm (jnp_zeros [n_samples, n_lat], jnp_zeros [n_samples, n_lat]) z_key)) x_key"
    by (simp add: sample_vae_def sp Let_def)
  also have "\<dots> = Val (tab (n_samples # fs) (\<lambda>j. reparam (elems PM ! j) (elems PL ! j) (nrm x_key (n_samples # fs) j)))"
    unfolding z p x ..
  also have "\<dots> = Val (spec_sample_vae nrm z_key x_key n_lat n_samples decoder)"
    by (simp add: spec_sample_vae_def Let_def Z_def[symmetric] PM_def[symmetric] PL_def[symmetric] sPM)
  finally show ?thesis .
qed

lemma sample_vae_cong:
  assumes sp: "split key = (z_key, x_key)" and "nrm' z_key = nrm z_key" and "nrm' x_key = nrm x_key"
  shows "sample_vae nrm' split n_lat n_samples (encoder', decoder) key
           = sample_vae nrm split n_lat n_samples (encoder, decoder) key"
proof -
  have a: "sample_gaussian nrm' p z_key = sample_gaussian nrm p z_key" for p
    using assms(2) by (rule sample_gaussian_cong)
  have b: "sample_gaussian nrm' p x_key = sample_gaussian nrm p x_key" for p
    using assms(3) by (rule sample_gaussian_cong)
  show ?thesis
    by (simp add: sample_vae_def sp Let_def a b)
qed

text \<open>
  Claim C9. \<open>sample_vae\<close> is a function of its arguments and of the values the
  generator has at the two keys that \<^verbatim>\<open>jax.random.split\<close> makes of the key given: a
  generator that agrees with another at these two keys gives the same output (and the
  encoder of the model plays no part). The first key of the split makes the latent
  draw and the second the output draw: for a decoder that keeps the shape contract,
  the output is the reparameterized draw, with the second key, from the Gaussian the
  decoder gives for the standard-normal latent sample drawn with the first key. The
  arithmetic is that of the real numbers.
\<close>

theorem sample_vae_keys:
  assumes "split key = (z_key, x_key)"
  shows "(nrm' z_key = nrm z_key \<and> nrm' x_key = nrm x_key
            \<longrightarrow> sample_vae nrm' split n_lat n_samples (encoder', decoder) key
                  = sample_vae nrm split n_lat n_samples (encoder, decoder) key)
         \<and> (maps_shape [n_lat] fs decoder
            \<longrightarrow> sample_vae nrm split n_lat n_samples (encoder, decoder) key
                  = Val (spec_sample_vae nrm z_key x_key n_lat n_samples decoder))"
proof (intro conjI impI)
  assume "nrm' z_key = nrm z_key \<and> nrm' x_key = nrm x_key"
  then have "nrm' z_key = nrm z_key" and "nrm' x_key = nrm x_key" by simp_all
  with assms show "sample_vae nrm' split n_lat n_samples (encoder', decoder) key
                  = sample_vae nrm split n_lat n_samples (encoder, decoder) key"
    by (rule sample_vae_cong)
next
  assume "maps_shape [n_lat] fs decoder"
  with assms show "sample_vae nrm split n_lat n_samples (encoder, decoder) key
                  = Val (spec_sample_vae nrm z_key x_key n_lat n_samples decoder)"
    by (rule sample_vae_contract)
qed

lemma example_pair: "example (Tensor [2, 1] [a, b]) r = Tensor [1] [[a, b] ! r]"
  by (simp add: example_def tab_def)

lemma batched_pair:
  assumes "\<And>v. f (Tensor [1] [v]) = Tensor [1] [g v]"
  shows "batched f (Tensor [2, 1] [a, b]) = Tensor [2, 1] [g a, g b]"
proof -
  have "tab [2, 1] (\<lambda>j. elems (Tensor [1] [g ([a, b] ! (j div 1))]) ! (j mod 1)) = Tensor [2, 1] [g a, g b]"
    by (simp add: tab_def upt_rec)
  then show ?thesis
    by (simp add: batched_def Let_def example_pair[simplified] assms[simplified] tsize_def)
qed

lemma spec_sample_vae_demo:
  "spec_sample_vae (\<lambda>k s i. real (k + i) + 1) 0 1 1 2 doubling_net = Tensor [2, 1] [4, 7]"
proof -
  have z: "tab [2, 1] (\<lambda>i. real (0 + i) + 1) = Tensor [2, 1] [1, 2]"
    by (simp add: tab_def upt_rec)
  have pm: "batched (\<lambda>x. fst (doubling_net x)) (Tensor [2, 1] [1, 2]) = Tensor [2, 1] [2 * 1, 2 * 2]"
    by (rule batched_pair) (simp add: doubling_net_def)
  have pl: "batched (\<lambda>x. snd (doubling_net x)) (Tensor [2, 1] [1, 2]) = Tensor [2, 1] [0, 0]"
    by (rule batched_pair) (simp add: doubling_net_def)
  have "tab [2, 1] (\<lambda>j. reparam ([2 * 1, 2 * 2] ! j) ([0, 0] ! j) (real (1 + j) + 1)) = Tensor [2, 1] [4, 7]"
    by (simp add: tab_def upt_rec reparam_def)
  then show ?thesis
    unfolding spec_sample_vae_def Let_def z pm pl tensor.sel .
qed

theorem sample_vae_keys_witness:
  "sample_vae (\<lambda>k s i. if k < 2 then real (k + i) + 1 else 0) (\<lambda>k. (2 * k, 2 * k + 1)) 1 2
       (identity_net, doubling_net) (0::nat)
     = sample_vae (\<lambda>k s i. real (k + i) + 1) (\<lambda>k. (2 * k, 2 * k + 1)) 1 2
         (doubling_net, doubling_net) 0
   \<and> sample_vae (\<lambda>k s i. real (k + i) + 1) (\<lambda>k. (2 * k, 2 * k + 1)) 1 2
         (doubling_net, doubling_net) (0::nat)
       = Val (Tensor [2, 1] [4, 7])"
proof -
  have sp: "(\<lambda>k. (2 * k, 2 * k + 1)) (0::nat) = (0, 1)" by simp
  note t = sample_vae_keys[of "\<lambda>k. (2 * k, 2 * k + 1)" "0::nat" 0 1
      "\<lambda>k s i. if k < 2 then real (k + i) + 1 else 0" "\<lambda>k s i. real (k + i) + 1"
      1 2 identity_net doubling_net doubling_net "[1]", OF sp]
  have a: "sample_vae (\<lambda>k s i. if k < 2 then real (k + i) + 1 else 0) (\<lambda>k. (2 * k, 2 * k + 1)) 1 2
       (identity_net, doubling_net) (0::nat)
     = sample_vae (\<lambda>k s i. real (k + i) + 1) (\<lambda>k. (2 * k, 2 * k + 1)) 1 2
         (doubling_net, doubling_net) 0"
    by (rule t[THEN conjunct1, THEN mp]) simp
  have b: "sample_vae (\<lambda>k s i. real (k + i) + 1) (\<lambda>k. (2 * k, 2 * k + 1)) 1 2
         (doubling_net, doubling_net) (0::nat)
       = Val (spec_sample_vae (\<lambda>k s i. real (k + i) + 1) 0 1 1 2 doubling_net)"
    by (rule t[THEN conjunct2, THEN mp]) (rule maps_shape_doubling_net)
  show ?thesis using a b by (simp only: spec_sample_vae_demo) 
qed

end
